theory Spec2Isabelle
  imports Main "HOL-Library.Word"
begin

section \<open>QtXBee: the XBee driver of \<^verbatim>\<open>src/qtxb/xbee.cpp\<close>\<close>

text \<open>
  A shallow embedding of \<^verbatim>\<open>XBee::readData\<close>, \<^verbatim>\<open>XBee::processPacket\<close>,
  \<^verbatim>\<open>XBee::processATCommandRespone\<close>, \<^verbatim>\<open>XBee::sendATCommandAsync\<close>,
  \<^verbatim>\<open>XBee::sendATCommandSync\<close> and \<^verbatim>\<open>XBee::startupCheck\<close>. The object's members are
  a record that each function takes and returns; a signal emitted with \<^verbatim>\<open>emit\<close> is an entry
  of the list of signals a function returns; a read outside a byte array or through a null
  pointer is an error value.
\<close>

subsection \<open>Bytes and the Qt functions the driver calls\<close>

type_synonym byte = "8 word"

text \<open>
  \<^verbatim>\<open>QByteArray::toHex\<close>: two lower-case hexadecimal digits for every byte, the high
  nibble first.
\<close>

definition hexDigit :: "nat \<Rightarrow> char" where
  "hexDigit n = ''0123456789abcdef'' ! n"

fun toHex :: "byte list \<Rightarrow> string" where
  "toHex [] = []"
| "toHex (b # bs) = hexDigit (unat b div 16) # hexDigit (unat b mod 16) # toHex bs"

text \<open>
  \<^verbatim>\<open>QString::toInt(bool *ok, int base)\<close> and \<^verbatim>\<open>QByteArray::toInt(bool *ok, int base)\<close>, on
  the strings the driver passes, which are outputs of \<^verbatim>\<open>toHex\<close> (digits only: no sign, no
  prefix, no blanks). The conversion fails on the empty string, on a character that is not
  a digit of the base, and on a value that does not fit a 32-bit \<^verbatim>\<open>int\<close>; a failed
  conversion clears \<^verbatim>\<open>ok\<close> and returns 0.
\<close>

definition digitValue :: "char \<Rightarrow> nat option" where
  "digitValue c =
     (let n = (of_char c :: nat) in
      if 48 \<le> n \<and> n \<le> 57 then Some (n - 48)
      else if 97 \<le> n \<and> n \<le> 122 then Some (n - 87)
      else if 65 \<le> n \<and> n \<le> 90 then Some (n - 55)
      else None)"

fun parseDigits :: "nat \<Rightarrow> nat \<Rightarrow> string \<Rightarrow> nat option" where
  "parseDigits base acc [] = Some acc"
| "parseDigits base acc (c # cs) =
     (case digitValue c of
        None \<Rightarrow> None
      | Some d \<Rightarrow> if d < base then parseDigits base (acc * base + d) cs else None)"

definition toInt :: "string \<Rightarrow> nat \<Rightarrow> bool \<times> int" where
  "toInt s base =
     (if s = [] then (False, 0)
      else case parseDigits base 0 s of
             None \<Rightarrow> (False, 0)
           | Some v \<Rightarrow> if v \<le> 2147483647 then (True, int v) else (False, 0))"

text \<open>
  \<^verbatim>\<open>QByteArray::left(int len)\<close> and \<^verbatim>\<open>QByteArray::remove(int pos, int len)\<close> of Qt 5:
  \<^verbatim>\<open>left\<close> returns the whole array when \<^verbatim>\<open>len\<close> is at least its size and the empty array
  when \<^verbatim>\<open>len\<close> is negative; \<^verbatim>\<open>remove\<close> does nothing when \<^verbatim>\<open>len\<close> is not positive or
  \<^verbatim>\<open>pos\<close> is outside the array, and cuts the array at \<^verbatim>\<open>pos\<close> when \<^verbatim>\<open>len\<close> reaches
  past its end.
\<close>

definition QByteArray_left :: "byte list \<Rightarrow> int \<Rightarrow> byte list" where
  "QByteArray_left b len =
     (if int (length b) \<le> len then b
      else if len < 0 then []
      else take (nat len) b)"

definition QByteArray_remove :: "byte list \<Rightarrow> int \<Rightarrow> int \<Rightarrow> byte list" where
  "QByteArray_remove b pos len =
     (if len \<le> 0 \<or> pos < 0 \<or> int (length b) \<le> pos then b
      else if int (length b) - pos \<le> len then take (nat pos) b
      else take (nat pos) b @ drop (nat (pos + len)) b)"

text \<open>\<^verbatim>\<open>QByteArray::endsWith(char c)\<close>: false on the empty array.\<close>

definition endsWith :: "byte list \<Rightarrow> byte \<Rightarrow> bool" where
  "endsWith b c = (case rev b of [] \<Rightarrow> False | l # _ \<Rightarrow> l = c)"

subsection \<open>Frames\<close>

text \<open>
  The enumeration \<^verbatim>\<open>ATCommandFrame::ATCommand\<close> is declared in a header that is not among
  the sources. The constructors are the enumerators \<^verbatim>\<open>processATCommandRespone\<close> names;
  \<open>Command_Other\<close> stands for every other enumerator (the \<^verbatim>\<open>default\<close> arm), with its
  two letters.
\<close>

datatype ATCommand =
    Command_DH | Command_DL | Command_MY | Command_MP | Command_NC
  | Command_SH | Command_SL | Command_NI | Command_SE | Command_DE
  | Command_CI | Command_TO | Command_NP | Command_DD | Command_CR
  | Command_ND
  | Command_Other string

text \<open>
  \<^verbatim>\<open>ATCommandResponseFrame::Ok\<close> is the only status the source names; \<open>Failure n\<close> stands
  for every other status, with the status byte of the device.
\<close>

datatype CommandStatus = Ok | Failure nat

text \<open>
  An \<^verbatim>\<open>ATCommandResponseFrame\<close>, as the driver reads it through \<^verbatim>\<open>atCommand()\<close>,
  \<^verbatim>\<open>commandStatus()\<close> and \<^verbatim>\<open>data()\<close>; \<open>rawPacket\<close> is the byte run it was built from.
\<close>

record ATCommandResponseFrame =
  rawPacket :: "byte list"
  atCommand :: ATCommand
  commandStatus :: CommandStatus
  data :: "byte list"

text \<open>
  An \<^verbatim>\<open>ATCommandFrame\<close>: \<open>frameId\<close> and \<open>packet\<close> are the members of its base class
  \<^verbatim>\<open>DigiMeshFrame\<close> that \<^verbatim>\<open>setFrameId\<close>, \<^verbatim>\<open>assemblePacket\<close> and \<^verbatim>\<open>packet()\<close> write and
  read. The constructor is not among the sources; every function below overwrites
  \<open>frameId\<close> and \<open>packet\<close> before it reads them.
\<close>

record ATCommandFrame =
  frameId :: nat
  packet :: "byte list"
  command :: string
  parameter :: string

definition ATCommandFrame_new :: ATCommandFrame where
  "ATCommandFrame_new = \<lparr>frameId = 0, packet = [], command = [], parameter = []\<rparr>"

text \<open>The frame types \<^verbatim>\<open>processPacket\<close> switches on (enumerators of \<^verbatim>\<open>DigiMeshFrame\<close>).\<close>

datatype ApiFrameType =
    ATCommandResponseFrameType | ModemStatusFrameType | TransmitStatusFrameType
  | RXIndicatorFrameType | ExplicitRxIndicatorFrameType
  | NodeIdentificationIndicatorFrameType | RemoteATCommandResponseFrameType
  | UnknownFrameType

subsection \<open>What the headers and the codec classes provide\<close>

text \<open>
  The driver is compiled against declarations and classes that are not among the sources.
  They are parameters of the model:
  \<^item> \<open>char_signed\<close>: whether plain \<^verbatim>\<open>char\<close>, the result type of \<^verbatim>\<open>QByteArray::at\<close>, is
    signed (it is on x86 and x86-64, it is not on ARM Linux);
  \<^item> \<open>encode\<close>: the bytes \<^verbatim>\<open>assemblePacket\<close> builds from a command frame;
  \<^item> \<open>decodeResponse\<close>: the \<^verbatim>\<open>ATCommandResponseFrame\<close> that its constructor and
    \<^verbatim>\<open>setPacket\<close> build from a byte run;
  \<^item> \<open>frameTypeOf\<close>: the case labels of \<^verbatim>\<open>processPacket\<close>, from the type byte;
  \<^item> \<open>XBeeSerie1\<close>, \<open>XBeeSerie1Pro\<close>: the constants of \<^verbatim>\<open>global.h\<close>.
\<close>

record Outside =
  char_signed :: bool
  encode :: "ATCommandFrame \<Rightarrow> byte list"
  decodeResponse :: "byte list \<Rightarrow> ATCommandResponseFrame"
  frameTypeOf :: "byte \<Rightarrow> ApiFrameType"
  XBeeSerie1 :: int
  XBeeSerie1Pro :: int

subsection \<open>The object\<close>

datatype Mode = TransparentMode | ApiMode

text \<open>
  The serial port: \<open>written\<close> is the log of the byte runs passed to \<^verbatim>\<open>write\<close>;
  \<open>incoming\<close> is the script of the line, whose head is the byte run that is available when
  the driver next reads (\<^verbatim>\<open>readAll\<close>), empty when nothing arrived.
\<close>

record QSerialPort =
  isOpen :: bool
  signalsBlocked :: bool
  written :: "byte list list"
  incoming :: "byte list list"

definition readAll :: "QSerialPort \<Rightarrow> byte list \<times> QSerialPort" where
  "readAll s = (case incoming s of [] \<Rightarrow> ([], s) | r # rs \<Rightarrow> (r, s\<lparr>incoming := rs\<rparr>))"

text \<open>
  The members of \<^verbatim>\<open>XBee\<close>. Their declarations are in \<^verbatim>\<open>xbee.h\<close>, which is not among the
  sources: the widths of the addressing properties are those of the parameters of their
  setters (\<^verbatim>\<open>setDH(const quint32)\<close>, \<^verbatim>\<open>setMY(const quint16)\<close>, \<^verbatim>\<open>setSE(const quint8)\<close>, ...).
  The frame-id counter is a natural number: the guard \<^verbatim>\<open>m_frameIdCounter >= 255\<close> keeps
  every value reached from the constructor's 1 at most 255, so the increment never wraps.
\<close>

record XBee =
  m_serial :: "QSerialPort option"
  xbeeFound :: bool
  m_mode :: Mode
  buffer :: "byte list"
  m_frameIdCounter :: nat
  m_dh :: "32 word"
  m_dl :: "32 word"
  m_my :: "16 word"
  m_mp :: "16 word"
  m_nc :: "32 word"
  m_sh :: "32 word"
  m_sl :: "32 word"
  m_ni :: string
  m_se :: "8 word"
  m_de :: "8 word"
  m_ci :: "8 word"
  m_to :: "8 word"
  m_np :: "8 word"
  m_dd :: "16 word"
  m_cr :: "8 word"

text \<open>The signals of \<^verbatim>\<open>XBee\<close>; a frame of a type other than the command response is carried
  as the packet it is built from.\<close>

datatype signal =
    rawDataReceived "byte list"
  | DHChanged "32 word" | DLChanged "32 word" | MYChanged "16 word" | MPChanged "16 word"
  | NCChanged "32 word" | SHChanged "32 word" | SLChanged "32 word" | NIChanged string
  | SEChanged "8 word" | DEChanged "8 word" | CIChanged "8 word" | TOChanged "8 word"
  | NPChanged "8 word" | DDChanged "16 word" | CRChanged "8 word"
  | receivedATCommandResponse ATCommandResponseFrame
  | receivedModemStatus "byte list"
  | receivedTransmitStatus "byte list"
  | receivedRXIndicator "byte list"
  | receivedRXIndicatorExplicit "byte list"
  | receivedNodeIdentificationIndicator "byte list"
  | receivedRemoteCommandResponse "byte list"

datatype error = NullPointer | IndexOutOfRange

subsection \<open>\<^verbatim>\<open>XBee::processATCommandRespone\<close>\<close>

text \<open>
  The status of the response is not read. \<^verbatim>\<open>toInt(0, 16)\<close> is called with no \<^verbatim>\<open>ok\<close> flag,
  so a failed conversion is the value 0; the \<^verbatim>\<open>int\<close> is converted to \<^verbatim>\<open>quint32\<close> and then
  to the width of the member it is assigned to.
\<close>

definition processATCommandRespone ::
  "ATCommandResponseFrame \<Rightarrow> XBee \<Rightarrow> XBee \<times> signal list" where
  "processATCommandRespone rep x =
     (let at = atCommand rep;
          dat = toHex (data rep);
          dataInt = (word_of_int (snd (toInt dat 16)) :: 32 word);
          (x', sigs) =
            (case at of
               Command_DH \<Rightarrow> (x\<lparr>m_dh := dataInt\<rparr>, [DHChanged dataInt])
             | Command_DL \<Rightarrow> (x\<lparr>m_dl := dataInt\<rparr>, [DLChanged dataInt])
             | Command_MY \<Rightarrow> (x\<lparr>m_my := ucast dataInt\<rparr>, [MYChanged (ucast dataInt)])
             | Command_MP \<Rightarrow> (x\<lparr>m_mp := ucast dataInt\<rparr>, [MPChanged (ucast dataInt)])
             | Command_NC \<Rightarrow> (x\<lparr>m_nc := dataInt\<rparr>, [NCChanged dataInt])
             | Command_SH \<Rightarrow> (x\<lparr>m_sh := dataInt\<rparr>, [SHChanged dataInt])
             | Command_SL \<Rightarrow> (x\<lparr>m_sl := dataInt\<rparr>, [SLChanged dataInt])
             | Command_NI \<Rightarrow> (x\<lparr>m_ni := dat\<rparr>, [NIChanged dat])
             | Command_SE \<Rightarrow> (x\<lparr>m_se := ucast dataInt\<rparr>, [SEChanged (ucast dataInt)])
             | Command_DE \<Rightarrow> (x\<lparr>m_de := ucast dataInt\<rparr>, [DEChanged (ucast dataInt)])
             | Command_CI \<Rightarrow> (x\<lparr>m_ci := ucast dataInt\<rparr>, [CIChanged (ucast dataInt)])
             | Command_TO \<Rightarrow> (x\<lparr>m_to := ucast dataInt\<rparr>, [TOChanged (ucast dataInt)])
             | Command_NP \<Rightarrow> (x\<lparr>m_np := ucast dataInt\<rparr>, [NPChanged (ucast dataInt)])
             | Command_DD \<Rightarrow> (x\<lparr>m_dd := ucast dataInt\<rparr>, [DDChanged (ucast dataInt)])
             | Command_CR \<Rightarrow> (x\<lparr>m_cr := ucast dataInt\<rparr>, [CRChanged (ucast dataInt)])
             | Command_ND \<Rightarrow> (x, [])
             | Command_Other _ \<Rightarrow> (x, []))
      in (x', sigs @ [receivedATCommandResponse rep]))"

subsection \<open>The constructor \<^verbatim>\<open>XBee::XBee(QObject *parent)\<close>\<close>

definition XBee_new :: XBee where
  "XBee_new =
     \<lparr>m_serial = None, xbeeFound = False, m_mode = TransparentMode, buffer = [],
      m_frameIdCounter = 1,
      m_dh = 0, m_dl = 0, m_my = 0, m_mp = 0, m_nc = 0, m_sh = 0, m_sl = 0, m_ni = [],
      m_se = 0, m_de = 0, m_ci = 0, m_to = 0, m_np = 0, m_dd = 0, m_cr = 0\<rparr>"

subsection \<open>\<^verbatim>\<open>XBee::sendATCommandAsync\<close> and \<^verbatim>\<open>XBee::sendATCommandSync\<close>\<close>

text \<open>
  \<^verbatim>\<open>assemblePacket\<close> stores the encoding of the frame as it is when it is called;
  \<^verbatim>\<open>setFrameId\<close> stores the id. The asynchronous send assembles the packet first and sets
  the id, and advances the counter, only inside the branch taken when the device was found
  and the port is open. \<^verbatim>\<open>&&\<close> does not evaluate \<^verbatim>\<open>m_serial->isOpen()\<close> when
  \<^verbatim>\<open>xbeeFound\<close> is false; the other branch reads \<^verbatim>\<open>m_serial->portName()\<close> for its message.
  The functions return the command too, since they write to the caller's object.
\<close>

definition sendATCommandAsync ::
  "Outside \<Rightarrow> ATCommandFrame \<Rightarrow> XBee \<Rightarrow> error + (ATCommandFrame \<times> XBee)" where
  "sendATCommandAsync out cmd x =
     (let cmd = cmd\<lparr>packet := encode out cmd\<rparr> in
      case m_serial x of
        None \<Rightarrow> Inl NullPointer
      | Some s \<Rightarrow>
          if xbeeFound x \<and> isOpen s then
            let cmd = cmd\<lparr>frameId := m_frameIdCounter x\<rparr>;
                x = (if 255 \<le> m_frameIdCounter x then x\<lparr>m_frameIdCounter := 1\<rparr>
                     else x\<lparr>m_frameIdCounter := m_frameIdCounter x + 1\<rparr>);
                s = s\<lparr>written := written s @ [packet cmd]\<rparr>
            in Inr (cmd, x\<lparr>m_serial := Some s\<rparr>)
          else Inr (cmd, x))"

text \<open>
  The synchronous send sets the id and advances the counter first, with no test of the
  port, then assembles, blocks the port's signals, writes, waits, and reads what is
  available at that moment: after \<^verbatim>\<open>readAll\<close> the port is at its end, so the loop body runs
  once when bytes are there and not at all otherwise. A response object is built only from
  a non-empty byte run.
\<close>

definition sendATCommandSync ::
  "Outside \<Rightarrow> ATCommandFrame \<Rightarrow> XBee
     \<Rightarrow> error + (ATCommandResponseFrame option \<times> ATCommandFrame \<times> XBee)" where
  "sendATCommandSync out cmd x =
     (let cmd = cmd\<lparr>frameId := m_frameIdCounter x\<rparr>;
          x = (if 255 \<le> m_frameIdCounter x then x\<lparr>m_frameIdCounter := 1\<rparr>
               else x\<lparr>m_frameIdCounter := m_frameIdCounter x + 1\<rparr>);
          cmd = cmd\<lparr>packet := encode out cmd\<rparr>
      in case m_serial x of
           None \<Rightarrow> Inl NullPointer
         | Some s \<Rightarrow>
             let s = s\<lparr>signalsBlocked := True\<rparr>;
                 s = s\<lparr>written := written s @ [packet cmd]\<rparr>;
                 (repPacket, s) = readAll s;
                 s = s\<lparr>signalsBlocked := False\<rparr>;
                 rep = (if 0 < length repPacket then Some (decodeResponse out repPacket)
                        else None)
             in Inr (rep, cmd, x\<lparr>m_serial := Some s\<rparr>))"

text \<open>A run of asynchronous sends, one command after the other (as
  \<^verbatim>\<open>loadAddressingProperties\<close> makes them); it returns the commands as sent.\<close>

fun sendATCommandAsync_each ::
  "Outside \<Rightarrow> ATCommandFrame list \<Rightarrow> XBee \<Rightarrow> error + (ATCommandFrame list \<times> XBee)" where
  "sendATCommandAsync_each out [] x = Inr ([], x)"
| "sendATCommandAsync_each out (c # cs) x =
     (case sendATCommandAsync out c x of
        Inl e \<Rightarrow> Inl e
      | Inr (c', x') \<Rightarrow>
          (case sendATCommandAsync_each out cs x' of
             Inl e \<Rightarrow> Inl e
           | Inr (cs', x'') \<Rightarrow> Inr (c' # cs', x'')))"

subsection \<open>\<^verbatim>\<open>XBee::processPacket\<close>\<close>

text \<open>\<^verbatim>\<open>packet.at(3)\<close> is a read outside the array when the packet has fewer than four
  bytes.\<close>

definition processPacket ::
  "Outside \<Rightarrow> byte list \<Rightarrow> XBee \<Rightarrow> error + (XBee \<times> signal list)" where
  "processPacket out pkt x =
     (if length pkt \<le> 3 then Inl IndexOutOfRange
      else case frameTypeOf out (pkt ! 3) of
             ATCommandResponseFrameType \<Rightarrow>
               Inr (processATCommandRespone (decodeResponse out pkt) x)
           | ModemStatusFrameType \<Rightarrow> Inr (x, [receivedModemStatus pkt])
           | TransmitStatusFrameType \<Rightarrow> Inr (x, [receivedTransmitStatus pkt])
           | RXIndicatorFrameType \<Rightarrow> Inr (x, [receivedRXIndicator pkt])
           | ExplicitRxIndicatorFrameType \<Rightarrow> Inr (x, [receivedRXIndicatorExplicit pkt])
           | NodeIdentificationIndicatorFrameType \<Rightarrow>
               Inr (x, [receivedNodeIdentificationIndicator pkt])
           | RemoteATCommandResponseFrameType \<Rightarrow> Inr (x, [receivedRemoteCommandResponse pkt])
           | UnknownFrameType \<Rightarrow> Inr (x, []))"

subsection \<open>\<^verbatim>\<open>XBee::readData\<close>\<close>

text \<open>The loop that drops bytes until the first one is the start delimiter 0x7E.\<close>

fun dropToStartDelimiter :: "byte list \<Rightarrow> byte list" where
  "dropToStartDelimiter [] = []"
| "dropToStartDelimiter (b # bs) = (if b \<noteq> 0x7E then dropToStartDelimiter bs else b # bs)"

text \<open>
  \<^verbatim>\<open>unsigned length = buffer.at(2)+4\<close>: the byte is read as a plain \<^verbatim>\<open>char\<close>, promoted to
  \<^verbatim>\<open>int\<close>, 4 is added and the sum is converted to a 32-bit \<^verbatim>\<open>unsigned\<close>.
\<close>

definition frameLength :: "bool \<Rightarrow> byte \<Rightarrow> 32 word" where
  "frameLength is_signed b = word_of_int ((if is_signed then sint b else uint b) + 4)"

text \<open>
  The structured branch after the loop, on the aligned buffer: the packet handed to
  \<^verbatim>\<open>processPacket\<close>, if one is, and the buffer after \<^verbatim>\<open>remove\<close>. The test compares the size
  and the length both cut to \<^verbatim>\<open>unsigned char\<close>; \<^verbatim>\<open>left\<close> and \<^verbatim>\<open>remove\<close> take the length
  as an \<^verbatim>\<open>int\<close>.
\<close>

definition takePacket :: "bool \<Rightarrow> byte list \<Rightarrow> byte list option \<times> byte list" where
  "takePacket is_signed buf =
     (if 2 < length buf then
        let len = frameLength is_signed (buf ! 2) in
        if (ucast len :: 8 word) \<le> (of_nat (length buf) :: 8 word) then
          (Some (QByteArray_left buf (sint len)), QByteArray_remove buf 0 (sint len))
        else (None, buf)
      else (None, buf))"

text \<open>
  \<^verbatim>\<open>readData\<close> returns the object, the packets it handed to \<^verbatim>\<open>processPacket\<close> and the
  signals emitted. \<^verbatim>\<open>processPacket\<close> is called on the packet before the packet's bytes
  are removed from the buffer; it does not touch the buffer.
\<close>

definition readData ::
  "Outside \<Rightarrow> XBee \<Rightarrow> error + (XBee \<times> byte list list \<times> signal list)" where
  "readData out x =
     (case m_serial x of
        None \<Rightarrow> Inl NullPointer
      | Some s \<Rightarrow>
          let (dat, s) = readAll s;
              x = x\<lparr>m_serial := Some s, buffer := buffer x @ dat\<rparr>
          in if m_mode x = TransparentMode then
               if endsWith (buffer x) 13 then Inr (x\<lparr>buffer := []\<rparr>, [], [rawDataReceived (buffer x)])
               else Inr (x, [], [])
             else
               let x = x\<lparr>buffer := dropToStartDelimiter (buffer x)\<rparr> in
               (case takePacket (char_signed out) (buffer x) of
                  (None, _) \<Rightarrow> Inr (x, [], [])
                | (Some pkt, rest) \<Rightarrow>
                    (case processPacket out pkt x of
                       Inl e \<Rightarrow> Inl e
                     | Inr (x, sigs) \<Rightarrow> Inr (x\<lparr>buffer := rest\<rparr>, [pkt], sigs))))"

subsection \<open>\<^verbatim>\<open>XBee::startupCheck\<close>\<close>

text \<open>
  The mode step (the \<^verbatim>\<open>AP\<close> query and, when the mode read is not 1, the command that sets
  it) and the hardware step (the \<^verbatim>\<open>HV\<close> query) share the variable \<^verbatim>\<open>bRet\<close>. Each is a
  function that returns \<^verbatim>\<open>bRet\<close> as the step leaves it; the hardware step takes the value
  the mode step left. In \<^verbatim>\<open>hv == QtXBee::XBeeSerie1 || QtXBee::XBeeSerie1Pro\<close> the second
  operand is the constant itself, true when it is not 0.
\<close>

definition startupCheck_AP :: "Outside \<Rightarrow> XBee \<Rightarrow> error + (bool \<times> XBee)" where
  "startupCheck_AP out x =
     (let at = ATCommandFrame_new\<lparr>command := ''AP''\<rparr> in
      case sendATCommandSync out at x of
        Inl e \<Rightarrow> Inl e
      | Inr (rep, at, x) \<Rightarrow>
          (case rep of
             None \<Rightarrow> Inr (False, x)
           | Some r \<Rightarrow>
               if commandStatus r = Ok then
                 let (ok, apmode) = toInt (toHex (data r)) 16 in
                 if ok then
                   if apmode \<noteq> 1 then
                     let at = at\<lparr>parameter := ''1''\<rparr> in
                     case sendATCommandSync out at x of
                       Inl e \<Rightarrow> Inl e
                     | Inr (rep, at, x) \<Rightarrow>
                         (case rep of
                            None \<Rightarrow> Inr (False, x)
                          | Some r \<Rightarrow>
                              if commandStatus r = Ok then Inr (True, x) else Inr (False, x))
                   else Inr (True, x)
                 else Inr (False, x)
               else Inr (False, x)))"

definition startupCheck_HV :: "Outside \<Rightarrow> bool \<Rightarrow> XBee \<Rightarrow> error + (bool \<times> XBee)" where
  "startupCheck_HV out bRet x =
     (let hv = ATCommandFrame_new\<lparr>command := ''HV''\<rparr> in
      case sendATCommandSync out hv x of
        Inl e \<Rightarrow> Inl e
      | Inr (rep, hv, x) \<Rightarrow>
          (case rep of
             None \<Rightarrow> Inr (False, x)
           | Some r \<Rightarrow>
               if commandStatus r = Ok then
                 let (ok, hv) = toInt (toHex (data r)) 16 in
                 if ok then
                   if hv = XBeeSerie1 out \<or> XBeeSerie1Pro out \<noteq> 0 then Inr (bRet \<and> True, x)
                   else Inr (False, x)
                 else Inr (False, x)
               else Inr (False, x)))"

definition startupCheck :: "Outside \<Rightarrow> XBee \<Rightarrow> error + (bool \<times> XBee)" where
  "startupCheck out x =
     (if xbeeFound x then
        case startupCheck_AP out x of
          Inl e \<Rightarrow> Inl e
        | Inr (bRet, x) \<Rightarrow> startupCheck_HV out bRet x
      else Inr (False, x))"

subsection \<open>The condition under which the asynchronous send writes\<close>

text \<open>\<^verbatim>\<open>xbeeFound && m_serial->isOpen()\<close>, for a port that exists.\<close>

definition portUsable :: "XBee \<Rightarrow> bool" where
  "portUsable x = (case m_serial x of None \<Rightarrow> False | Some s \<Rightarrow> xbeeFound x \<and> isOpen s)"

subsection \<open>An instance of the parameters, to run the model on bytes\<close>

text \<open>
  The frames of the API mode of the module: the start byte 0x7E, the length in two bytes,
  the frame type, the frame's fields and a checksum. An AT command (type 0x08) carries a
  frame id, the two letters of the command and its parameter; a response to it (type 0x88)
  carries the frame id, the two letters, a status byte (0 is OK) and the value. The values
  of \<open>XBeeSerie1\<close> and \<open>XBeeSerie1Pro\<close> are examples; the driver only distinguishes whether
  \<open>XBeeSerie1Pro\<close> is 0.
\<close>

definition wire_atCommand :: "byte \<Rightarrow> byte \<Rightarrow> ATCommand" where
  "wire_atCommand a b =
     (if (a, b) = (0x44, 0x48) then Command_DH
      else if (a, b) = (0x44, 0x4C) then Command_DL
      else if (a, b) = (0x4D, 0x59) then Command_MY
      else if (a, b) = (0x4D, 0x50) then Command_MP
      else if (a, b) = (0x4E, 0x43) then Command_NC
      else if (a, b) = (0x53, 0x48) then Command_SH
      else if (a, b) = (0x53, 0x4C) then Command_SL
      else if (a, b) = (0x4E, 0x49) then Command_NI
      else if (a, b) = (0x53, 0x45) then Command_SE
      else if (a, b) = (0x44, 0x45) then Command_DE
      else if (a, b) = (0x43, 0x49) then Command_CI
      else if (a, b) = (0x54, 0x4F) then Command_TO
      else if (a, b) = (0x4E, 0x50) then Command_NP
      else if (a, b) = (0x44, 0x44) then Command_DD
      else if (a, b) = (0x43, 0x52) then Command_CR
      else if (a, b) = (0x4E, 0x44) then Command_ND
      else Command_Other [char_of (unat a), char_of (unat b)])"

definition wire_decodeResponse :: "byte list \<Rightarrow> ATCommandResponseFrame" where
  "wire_decodeResponse p =
     (if length p < 9 then
        \<lparr>rawPacket = p, atCommand = Command_Other [], commandStatus = Failure 255, data = []\<rparr>
      else
        \<lparr>rawPacket = p, atCommand = wire_atCommand (p ! 5) (p ! 6),
         commandStatus = (if p ! 7 = 0 then Ok else Failure (unat (p ! 7))),
         data = take (length p - 9) (drop 8 p)\<rparr>)"

definition wire_encode :: "ATCommandFrame \<Rightarrow> byte list" where
  "wire_encode c =
     (let body = 0x08 # of_nat (frameId c) # map of_char (command c) @ map of_char (parameter c)
      in [0x7E, of_nat (length body div 256), of_nat (length body)] @ body
           @ [0xFF - sum_list body])"

definition wire_frameTypeOf :: "byte \<Rightarrow> ApiFrameType" where
  "wire_frameTypeOf t =
     (if t = 0x88 then ATCommandResponseFrameType
      else if t = 0x8A then ModemStatusFrameType
      else if t = 0x8B then TransmitStatusFrameType
      else if t = 0x90 then RXIndicatorFrameType
      else if t = 0x91 then ExplicitRxIndicatorFrameType
      else if t = 0x95 then NodeIdentificationIndicatorFrameType
      else if t = 0x97 then RemoteATCommandResponseFrameType
      else UnknownFrameType)"

definition wire :: "bool \<Rightarrow> Outside" where
  "wire is_signed =
     \<lparr>char_signed = is_signed, encode = wire_encode, decodeResponse = wire_decodeResponse,
      frameTypeOf = wire_frameTypeOf, XBeeSerie1 = 0x17, XBeeSerie1Pro = 0x18\<rparr>"

text \<open>The object with a port in the given state, a device found or not, in the given mode,
  and the line's script.\<close>

definition XBee_on :: "bool \<Rightarrow> bool \<Rightarrow> Mode \<Rightarrow> byte list list \<Rightarrow> XBee" where
  "XBee_on opened found mode script =
     XBee_new\<lparr>m_serial := Some \<lparr>isOpen = opened, signalsBlocked = False, written = [],
                                 incoming = script\<rparr>,
              xbeeFound := found, m_mode := mode\<rparr>"

text \<open>A frame of type 0x90 with the declared length \<open>L\<close> (from 1 to 255) and \<open>L - 1\<close> zero
  bytes after the type byte; its checksum is 0xFF - 0x90.\<close>

definition zeroFrame :: "nat \<Rightarrow> byte list" where
  "zeroFrame L = [0x7E, 0x00, of_nat L, 0x90] @ replicate (L - 1) 0 @ [0x6F]"

section \<open>Properties\<close>

subsection \<open>Auxiliary facts\<close>

lemma toInt_failed: "\<not> fst (toInt s base) \<Longrightarrow> snd (toInt s base) = 0"
  by (simp add: toInt_def split: if_splits option.splits)

lemma toInt_range: "0 \<le> snd (toInt s base) \<and> snd (toInt s base) \<le> 2147483647"
  by (simp add: toInt_def split: option.splits)

lemma endsWith_last: "endsWith b c \<longleftrightarrow> b \<noteq> [] \<and> last b = c"
  by (cases b rule: rev_cases) (simp_all add: endsWith_def)

lemma sendATCommandAsync_usable:
  assumes "m_serial x = Some s" "xbeeFound x" "isOpen s"
  shows "sendATCommandAsync out c x =
           Inr (c\<lparr>packet := encode out c, frameId := m_frameIdCounter x\<rparr>,
                x\<lparr>m_frameIdCounter :=
                     (if 255 \<le> m_frameIdCounter x then 1 else m_frameIdCounter x + 1),
                  m_serial := Some (s\<lparr>written := written s @ [encode out c]\<rparr>)\<rparr>)"
  using assms by (simp add: sendATCommandAsync_def Let_def)

lemma sendATCommandAsync_unusable:
  assumes "m_serial x = Some s" "\<not> (xbeeFound x \<and> isOpen s)"
  shows "sendATCommandAsync out c x = Inr (c\<lparr>packet := encode out c\<rparr>, x)"
  using assms by (auto simp add: sendATCommandAsync_def Let_def)

lemma sendATCommandSync_port:
  assumes "m_serial x = Some s"
  shows "sendATCommandSync out c x =
           Inr (if fst (readAll s) = [] then None
                else Some (decodeResponse out (fst (readAll s))),
                c\<lparr>frameId := m_frameIdCounter x,
                  packet := encode out (c\<lparr>frameId := m_frameIdCounter x\<rparr>)\<rparr>,
                x\<lparr>m_frameIdCounter :=
                     (if 255 \<le> m_frameIdCounter x then 1 else m_frameIdCounter x + 1),
                  m_serial := Some (s\<lparr>signalsBlocked := False,
                     written := written s @ [encode out (c\<lparr>frameId := m_frameIdCounter x\<rparr>)],
                     incoming := incoming (snd (readAll s))\<rparr>)\<rparr>)"
  using assms
  by (cases "incoming s") (simp_all add: sendATCommandSync_def Let_def readAll_def)

lemma XBee_on_fields:
  "m_serial (XBee_on opened found mode script)
     = Some \<lparr>isOpen = opened, signalsBlocked = False, written = [], incoming = script\<rparr>"
  "m_mode (XBee_on opened found mode script) = mode"
  "buffer (XBee_on opened found mode script) = []"
  "xbeeFound (XBee_on opened found mode script) = found"
  "m_frameIdCounter (XBee_on opened found mode script) = 1"
  by (simp_all add: XBee_on_def XBee_new_def)

lemma wire_fields:
  "char_signed (wire sg) = sg" "encode (wire sg) = wire_encode"
  "decodeResponse (wire sg) = wire_decodeResponse" "frameTypeOf (wire sg) = wire_frameTypeOf"
  "XBeeSerie1 (wire sg) = 0x17" "XBeeSerie1Pro (wire sg) = 0x18"
  by (simp_all add: wire_def)

lemma readAll_Cons: "incoming s = r # rs \<Longrightarrow> readAll s = (r, s\<lparr>incoming := rs\<rparr>)"
  by (simp add: readAll_def)

lemma sendATCommandSync_reply:
  assumes "m_serial x = Some s" "incoming s = r # rs" "r \<noteq> []"
  shows "sendATCommandSync out c x =
           Inr (Some (decodeResponse out r),
                c\<lparr>frameId := m_frameIdCounter x,
                  packet := encode out (c\<lparr>frameId := m_frameIdCounter x\<rparr>)\<rparr>,
                x\<lparr>m_frameIdCounter :=
                     (if 255 \<le> m_frameIdCounter x then 1 else m_frameIdCounter x + 1),
                  m_serial := Some (s\<lparr>signalsBlocked := False,
                     written := written s @ [encode out (c\<lparr>frameId := m_frameIdCounter x\<rparr>)],
                     incoming := rs\<rparr>)\<rparr>)"
  using sendATCommandSync_port [OF assms(1), of out c] assms(2,3)
  by (simp add: readAll_Cons)

subsection \<open>The frame-id counter over a run of sends\<close>

lemma sendATCommandAsync_each_ids:
  assumes "portUsable x" "1 \<le> m_frameIdCounter x" "m_frameIdCounter x \<le> 255"
  shows "\<exists>cs' x'. sendATCommandAsync_each out cs x = Inr (cs', x')
           \<and> map frameId cs' = map (\<lambda>i. (m_frameIdCounter x - 1 + i) mod 255 + 1) [0..<length cs]
           \<and> m_frameIdCounter x' = (m_frameIdCounter x - 1 + length cs) mod 255 + 1
           \<and> portUsable x'"
  using assms
proof (induction cs arbitrary: x)
  case Nil
  then show ?case by simp
next
  case (Cons c cs)
  from Cons.prems(1) obtain s where s: "m_serial x = Some s" "xbeeFound x" "isOpen s"
    by (auto simp: portUsable_def split: option.splits)
  let ?n = "if 255 \<le> m_frameIdCounter x then 1 else m_frameIdCounter x + 1"
  let ?x1 = "x\<lparr>m_frameIdCounter := ?n,
               m_serial := Some (s\<lparr>written := written s @ [encode out c]\<rparr>)\<rparr>"
  have step: "sendATCommandAsync out c x =
       Inr (c\<lparr>packet := encode out c, frameId := m_frameIdCounter x\<rparr>, ?x1)"
    by (rule sendATCommandAsync_usable [OF s])
  have u1: "portUsable ?x1" using s by (simp add: portUsable_def)
  have c1: "m_frameIdCounter ?x1 = ?n" by simp
  have b1: "1 \<le> m_frameIdCounter ?x1" "m_frameIdCounter ?x1 \<le> 255"
    using Cons.prems by (auto simp: c1)
  from Cons.IH [OF u1 b1] obtain cs' x' where
    r: "sendATCommandAsync_each out cs ?x1 = Inr (cs', x')"
       "map frameId cs' = map (\<lambda>i. (m_frameIdCounter ?x1 - 1 + i) mod 255 + 1) [0..<length cs]"
       "m_frameIdCounter x' = (m_frameIdCounter ?x1 - 1 + length cs) mod 255 + 1"
       "portUsable x'"
    by blast
  have shift: "\<And>i. (?n - 1 + i) mod 255 = (m_frameIdCounter x - 1 + Suc i) mod 255"
    using Cons.prems(2,3) by (auto simp: mod_Suc)
  have ids: "map frameId (c\<lparr>packet := encode out c, frameId := m_frameIdCounter x\<rparr> # cs')
      = map (\<lambda>i. (m_frameIdCounter x - 1 + i) mod 255 + 1) [0..<length (c # cs)]"
  proof -
    have "[0..<length (c # cs)] = 0 # map Suc [0..<length cs]"
      by (simp add: upt_conv_Cons map_Suc_upt del: upt_Suc)
    then show ?thesis
      using r(2) Cons.prems(2,3) shift by (simp add: c1 comp_def del: upt_Suc)
  qed
  have cnt: "m_frameIdCounter x' = (m_frameIdCounter x - 1 + length (c # cs)) mod 255 + 1"
    using r(3) shift [of "length cs"] by (simp add: c1)
  show ?case
    using step r(1) ids cnt r(4) by (simp del: upt_Suc)
qed

lemma ids_255: "map (\<lambda>i. Suc (i mod 255)) [0..<255] = [Suc 0..<256]"
proof -
  have "map (\<lambda>i. Suc (i mod 255)) [0..<255] = map Suc [0..<255]"
    by (rule map_cong) simp_all
  also have "\<dots> = [Suc 0..<Suc 255]" by (rule map_Suc_upt)
  finally show ?thesis by simp
qed

subsection \<open>The steps of the startup check\<close>

lemma startupCheck_AP_is_1:
  assumes port: "m_serial x = Some s"
    and reply: "incoming s = r # rs" "r \<noteq> []"
    and ok: "commandStatus (decodeResponse out r) = Ok"
    and val: "toInt (toHex (data (decodeResponse out r))) 16 = (True, 1)"
  shows "startupCheck_AP out x =
           Inr (True,
                x\<lparr>m_frameIdCounter :=
                     (if 255 \<le> m_frameIdCounter x then 1 else m_frameIdCounter x + 1),
                  m_serial := Some (s\<lparr>signalsBlocked := False,
                     written := written s @
                       [encode out (ATCommandFrame_new\<lparr>command := ''AP'',
                                      frameId := m_frameIdCounter x\<rparr>)],
                     incoming := rs\<rparr>)\<rparr>)"
  by (simp add: startupCheck_AP_def sendATCommandSync_reply [OF port reply] ok val Let_def)

lemma startupCheck_AP_not_1:
  assumes port: "m_serial x = Some s"
    and reply: "incoming s = r # rs" "r \<noteq> []"
    and ok: "commandStatus (decodeResponse out r) = Ok"
    and val: "toInt (toHex (data (decodeResponse out r))) 16 = (True, v)"
    and v: "v \<noteq> 1"
  shows "\<exists>x' s'. startupCheck_AP out x =
           Inr ((case rs of [] \<Rightarrow> [] | a # _ \<Rightarrow> a) \<noteq> []
                \<and> commandStatus (decodeResponse out (case rs of [] \<Rightarrow> [] | a # _ \<Rightarrow> a)) = Ok, x')
         \<and> m_serial x' = Some s'
         \<and> written s' = written s @
              [encode out (ATCommandFrame_new\<lparr>command := ''AP'', frameId := m_frameIdCounter x\<rparr>),
               encode out (ATCommandFrame_new\<lparr>command := ''AP'', frameId := m_frameIdCounter x,
                  packet := encode out (ATCommandFrame_new\<lparr>command := ''AP'',
                                          frameId := m_frameIdCounter x\<rparr>),
                  parameter := ''1'',
                  frameId := (if 255 \<le> m_frameIdCounter x then 1 else m_frameIdCounter x + 1)\<rparr>)]"
proof -
  let ?c = "m_frameIdCounter x"
  let ?n = "if 255 \<le> ?c then 1 else ?c + 1"
  let ?at = "ATCommandFrame_new\<lparr>command := ''AP''\<rparr>"
  let ?q1 = "ATCommandFrame_new\<lparr>command := ''AP'', frameId := ?c\<rparr>"
  let ?s1 = "s\<lparr>signalsBlocked := False, written := written s @ [encode out ?q1], incoming := rs\<rparr>"
  let ?x1 = "x\<lparr>m_frameIdCounter := ?n, m_serial := Some ?s1\<rparr>"
  let ?at1 = "?q1\<lparr>packet := encode out ?q1\<rparr>"
  let ?at2 = "?at1\<lparr>parameter := ''1''\<rparr>"
  let ?q2 = "?at2\<lparr>frameId := ?n\<rparr>"
  let ?r2 = "case rs of [] \<Rightarrow> [] | a # _ \<Rightarrow> a"
  have first: "sendATCommandSync out ?at x = Inr (Some (decodeResponse out r), ?at1, ?x1)"
    using sendATCommandSync_reply [OF port reply, of out ?at] by simp
  have m1: "m_serial ?x1 = Some ?s1" by simp
  have r2: "fst (readAll ?s1) = ?r2" by (simp add: readAll_def split: list.splits)
  obtain rep c2 x2 where second: "sendATCommandSync out ?at2 ?x1 = Inr (rep, c2, x2)"
    and rep: "rep = (if ?r2 = [] then None else Some (decodeResponse out ?r2))"
    and w2: "\<exists>s2. m_serial x2 = Some s2 \<and> written s2 = written s @ [encode out ?q1, encode out ?q2]"
    using sendATCommandSync_port [OF m1, of out ?at2] by (simp add: r2)
  from w2 obtain s2 where s2: "m_serial x2 = Some s2"
    "written s2 = written s @ [encode out ?q1, encode out ?q2]" by blast
  have res: "startupCheck_AP out x
     = Inr (?r2 \<noteq> [] \<and> commandStatus (decodeResponse out ?r2) = Ok, x2)"
    using v
    by (simp add: startupCheck_AP_def first ok val Let_def second rep)
  show ?thesis
    by (rule exI [of _ x2], rule exI [of _ s2]) (simp add: res s2)
qed

lemma startupCheck_AP_no_value:
  assumes port: "m_serial x = Some s"
    and reply: "incoming s = r # rs" "r \<noteq> []"
    and ok: "commandStatus (decodeResponse out r) = Ok"
    and val: "\<not> fst (toInt (toHex (data (decodeResponse out r))) 16)"
  shows "startupCheck_AP out x =
           Inr (False,
                x\<lparr>m_frameIdCounter :=
                     (if 255 \<le> m_frameIdCounter x then 1 else m_frameIdCounter x + 1),
                  m_serial := Some (s\<lparr>signalsBlocked := False,
                     written := written s @
                       [encode out (ATCommandFrame_new\<lparr>command := ''AP'',
                                      frameId := m_frameIdCounter x\<rparr>)],
                     incoming := rs\<rparr>)\<rparr>)"
  using val
  by (cases "toInt (toHex (data (decodeResponse out r))) 16")
     (simp add: startupCheck_AP_def sendATCommandSync_reply [OF port reply] ok Let_def)

lemma startupCheck_HV_value:
  assumes port: "m_serial x = Some s"
    and reply: "incoming s = r # rs" "r \<noteq> []"
    and ok: "commandStatus (decodeResponse out r) = Ok"
    and val: "toInt (toHex (data (decodeResponse out r))) 16 = (True, v)"
  shows "\<exists>x'. startupCheck_HV out bRet x =
           Inr (if v = XBeeSerie1 out \<or> XBeeSerie1Pro out \<noteq> 0 then bRet else False, x')"
  by (simp add: startupCheck_HV_def sendATCommandSync_reply [OF port reply] ok val Let_def)

lemma reply_AP_1:
  "commandStatus (wire_decodeResponse [0x7E, 0x00, 0x06, 0x88, 0x01, 0x41, 0x50, 0x00, 0x01, 0xE4]) = Ok"
  "toInt (toHex (data (wire_decodeResponse [0x7E, 0x00, 0x06, 0x88, 0x01, 0x41, 0x50, 0x00, 0x01, 0xE4]))) 16 = (True, 1)"
  by (simp_all add: wire_decodeResponse_def toInt_def hexDigit_def digitValue_def)

lemma reply_AP_2:
  "commandStatus (wire_decodeResponse [0x7E, 0x00, 0x06, 0x88, 0x01, 0x41, 0x50, 0x00, 0x02, 0xE3]) = Ok"
  "toInt (toHex (data (wire_decodeResponse [0x7E, 0x00, 0x06, 0x88, 0x01, 0x41, 0x50, 0x00, 0x02, 0xE3]))) 16 = (True, 2)"
  by (simp_all add: wire_decodeResponse_def toInt_def hexDigit_def digitValue_def)

lemma reply_set:
  "commandStatus (wire_decodeResponse [0x7E, 0x00, 0x05, 0x88, 0x02, 0x41, 0x50, 0x00, 0xE4]) = Ok"
  "commandStatus (wire_decodeResponse [0x7E, 0x00, 0x05, 0x88, 0x02, 0x41, 0x50, 0x01, 0xE3]) \<noteq> Ok"
  by (simp_all add: wire_decodeResponse_def)

lemma reply_AP_unconverted:
  "commandStatus (wire_decodeResponse
     [0x7E, 0x00, 0x09, 0x88, 0x01, 0x41, 0x50, 0x00, 0x80, 0x00, 0x00, 0x00, 0x65]) = Ok"
  "data (wire_decodeResponse
     [0x7E, 0x00, 0x09, 0x88, 0x01, 0x41, 0x50, 0x00, 0x80, 0x00, 0x00, 0x00, 0x65])
     = [0x80, 0x00, 0x00, 0x00]"
  "toInt (toHex (data (wire_decodeResponse
     [0x7E, 0x00, 0x09, 0x88, 0x01, 0x41, 0x50, 0x00, 0x80, 0x00, 0x00, 0x00, 0x65]))) 16
     = (False, 0)"
  by (simp_all add: wire_decodeResponse_def toInt_def hexDigit_def digitValue_def)

lemma reply_HV_99:
  "commandStatus (wire_decodeResponse [0x7E, 0x00, 0x06, 0x88, 0x02, 0x48, 0x56, 0x00, 0x99, 0x3E]) = Ok"
  "toInt (toHex (data (wire_decodeResponse [0x7E, 0x00, 0x06, 0x88, 0x02, 0x48, 0x56, 0x00, 0x99, 0x3E]))) 16 = (True, 0x99)"
  by (simp_all add: wire_decodeResponse_def toInt_def hexDigit_def digitValue_def)

subsection \<open>The length arithmetic of the structured branch\<close>

lemma ucast_32_8_of_int: "(ucast (word_of_int k :: 32 word) :: 8 word) = word_of_int k"
  by (rule bit_word_eqI) (simp add: bit_ucast_iff bit_word_of_int_iff)

lemma sint_32_small: "- 2147483648 \<le> k \<Longrightarrow> k < 2147483648 \<Longrightarrow> sint (word_of_int k :: 32 word) = k"
  by (simp add: signed_of_int signed_take_bit_int_eq_self)

lemma sint8_cases: "sint (b :: 8 word) = (if b < 128 then uint b else uint b - 256)"
proof -
  have u: "0 \<le> uint b" "uint b < 256" using uint_lt2p [of b] by simp_all
  have s: "sint b = (uint b + 128) mod 256 - 128"
    by (simp add: sint_uint signed_take_bit_eq_take_bit_shift take_bit_eq_mod)
  have l: "b < 128 \<longleftrightarrow> uint b < 128"
    by (simp add: word_less_alt)
  show ?thesis
  proof (cases "uint b < 128")
    case True
    with u have "(uint b + 128) mod 256 = uint b + 128"
      by (intro mod_pos_pos_trivial) simp_all
    with s True l show ?thesis by simp
  next
    case False
    have "uint b + 128 = uint b - 128 + 256" by simp
    then have "(uint b + 128) mod 256 = (uint b - 128 + 256) mod 256" by (rule arg_cong)
    also have "\<dots> = (uint b - 128) mod 256" by (simp only: mod_add_self2)
    also have "\<dots> = uint b - 128"
      using u False by (intro mod_pos_pos_trivial) simp_all
    finally show ?thesis using s False l by simp
  qed
qed

lemma frameLength_low: "(ucast (frameLength sg b) :: 8 word) = b + 4"
proof -
  have "(ucast (frameLength sg b) :: 8 word) = word_of_int ((if sg then sint b else uint b) + 4)"
    unfolding frameLength_def by (rule ucast_32_8_of_int)
  also have "\<dots> = b + 4"
    by (cases sg) simp_all
  finally show ?thesis .
qed

lemma frameLength_sint: "sint (frameLength sg b) = (if sg then sint b else uint b) + 4"
proof -
  have u: "0 \<le> uint b" "uint b < 256" using uint_lt2p [of b] by simp_all
  have s: "- 128 \<le> sint b" "sint b < 128" using sint_ge [of b] sint_lt [of b] by simp_all
  show ?thesis
    unfolding frameLength_def using u s by (intro sint_32_small) auto
qed

text \<open>\<^verbatim>\<open>takePacket\<close> in terms of numbers: the test compares the low bytes of the length and
  of the size; \<^verbatim>\<open>left\<close> and \<^verbatim>\<open>remove\<close> get the byte read as a \<^verbatim>\<open>char\<close>, plus 4.\<close>

lemma le_8word_nat: "(a :: 8 word) + 4 \<le> of_nat n \<longleftrightarrow> (unat a + 4) mod 256 \<le> n mod 256"
  by (simp add: word_le_nat_alt unat_word_ariths unat_of_nat)

lemma takePacket_eq:
  "takePacket sg buf =
     (if 2 < length buf then
        let k = (if sg then sint (buf ! 2) else uint (buf ! 2)) + 4 in
        if (unat (buf ! 2) + 4) mod 256 \<le> length buf mod 256
        then (Some (QByteArray_left buf k), QByteArray_remove buf 0 k)
        else (None, buf)
      else (None, buf))"
  by (simp add: takePacket_def Let_def frameLength_low frameLength_sint le_8word_nat)

lemma QByteArray_left_take:
  "0 \<le> k \<Longrightarrow> QByteArray_left b k = take (nat k) b"
  by (simp add: QByteArray_left_def)

lemma QByteArray_remove_drop:
  "0 < k \<Longrightarrow> b \<noteq> [] \<Longrightarrow> QByteArray_remove b 0 k = drop (nat k) b"
  by (simp add: QByteArray_remove_def)

lemma takePacket_frame:
  assumes len: "2 < length buf"
    and n: "n = unat (buf ! 2) + 4"
    and plat: "\<not> sg \<or> buf ! 2 < 128"
    and fits: "n \<le> length buf"
    and small: "length buf \<le> 255 \<or> length buf = n"
  shows "takePacket sg buf = (Some (take n buf), drop n buf)"
proof -
  have k: "(if sg then sint (buf ! 2) else uint (buf ! 2)) + 4 = int n"
    using plat n by (auto simp: sint8_cases)
  have c: "(unat (buf ! 2) + 4) mod 256 \<le> length buf mod 256"
    using small fits n by auto
  have ne: "buf \<noteq> []" using len by auto
  have "0 < n" using n by simp
  then have pos: "0 < int n" by simp
  show ?thesis
    using len c
    by (simp add: takePacket_eq Let_def k QByteArray_left_take
        QByteArray_remove_drop [OF pos ne])
qed

lemma dropToStartDelimiter_garbage:
  "0x7E \<notin> set g \<Longrightarrow> dropToStartDelimiter (g @ f) = dropToStartDelimiter f"
  by (induction g) auto

lemma dropToStartDelimiter_aligned:
  "f \<noteq> [] \<Longrightarrow> f ! 0 = 0x7E \<Longrightarrow> dropToStartDelimiter f = f"
  by (cases f) auto

lemma processPacket_total:
  "3 < length pkt \<Longrightarrow> \<exists>x' sigs. processPacket out pkt x = Inr (x', sigs) \<and> buffer x' = buffer x"
  by (cases "frameTypeOf out (pkt ! 3)"; cases "atCommand (decodeResponse out pkt)")
     (simp_all add: processPacket_def processATCommandRespone_def Let_def)

lemma readData_structured:
  assumes "m_serial x = Some s" "m_mode x \<noteq> TransparentMode"
  shows "readData out x =
     (let b = dropToStartDelimiter (buffer x @ fst (readAll s));
          x1 = x\<lparr>m_serial := Some (snd (readAll s)), buffer := b\<rparr>
      in case takePacket (char_signed out) b of
           (None, rest) \<Rightarrow> Inr (x1, [], [])
         | (Some pkt, rest) \<Rightarrow>
             (case processPacket out pkt x1 of
                Inl e \<Rightarrow> Inl e
              | Inr (x2, sigs) \<Rightarrow> Inr (x2\<lparr>buffer := rest\<rparr>, [pkt], sigs)))"
  using assms
  by (simp add: readData_def Let_def split: prod.splits option.splits)

lemma length_zeroFrame: "0 < L \<Longrightarrow> length (zeroFrame L) = L + 4"
  by (simp add: zeroFrame_def)

lemma zeroFrame_nth: "zeroFrame L ! 0 = 0x7E" "zeroFrame L ! 2 = of_nat L"
  by (simp_all add: zeroFrame_def)

lemma zeroFrame_append_nth: "(zeroFrame L @ r) ! 0 = 0x7E" "(zeroFrame L @ r) ! 2 = of_nat L"
  by (simp_all add: zeroFrame_def)

lemma zeroFrame_aligned: "dropToStartDelimiter (zeroFrame L @ r) = zeroFrame L @ r"
  by (simp add: zeroFrame_def)

lemma takePacket_signed_128:
  "takePacket True (zeroFrame 128) = (Some [], zeroFrame 128)"
  by (simp add: takePacket_eq length_zeroFrame zeroFrame_nth Let_def
      QByteArray_left_def QByteArray_remove_def)


lemma takePacket_unsigned_128:
  "takePacket False (zeroFrame 128) = (Some (zeroFrame 128), [])"
  by (simp add: takePacket_eq length_zeroFrame zeroFrame_nth Let_def
      QByteArray_left_def QByteArray_remove_def)

lemma processPacket_zeroFrame:
  "0 < L \<Longrightarrow> processPacket (wire sg) (zeroFrame L) x = Inr (x, [receivedRXIndicator (zeroFrame L)])"
  by (simp add: processPacket_def length_zeroFrame wire_fields)
     (simp add: zeroFrame_def wire_frameTypeOf_def)

lemma readData_XBee_on_structured:
  "readData out (XBee_on opened found ApiMode (d # script)) =
     (case takePacket (char_signed out) (dropToStartDelimiter d) of
        (None, rest) \<Rightarrow>
          Inr ((XBee_on opened found ApiMode script)\<lparr>buffer := dropToStartDelimiter d\<rparr>, [], [])
      | (Some pkt, rest) \<Rightarrow>
          (case processPacket out pkt
                  ((XBee_on opened found ApiMode script)\<lparr>buffer := dropToStartDelimiter d\<rparr>) of
             Inl e \<Rightarrow> Inl e
           | Inr (x2, sigs) \<Rightarrow> Inr (x2\<lparr>buffer := rest\<rparr>, [pkt], sigs)))"
  by (simp add: readData_def XBee_on_def XBee_new_def readAll_def Let_def
      split: prod.splits option.splits)

lemma takePacket_four_frames:
  "takePacket sg (zeroFrame 60 @ zeroFrame 60 @ zeroFrame 60 @ zeroFrame 60)
     = (None, zeroFrame 60 @ zeroFrame 60 @ zeroFrame 60 @ zeroFrame 60)"
  by (simp add: takePacket_eq length_zeroFrame zeroFrame_append_nth Let_def)

text \<open>
  What the structured branch does when the length byte is read as written: with the
  buffer, after the bytes before the first 0x7E are dropped, starting with a frame whose
  size is its length byte plus 4, the frame is handed to \<^verbatim>\<open>processPacket\<close> and the bytes
  after it stay in the buffer, provided the length byte is below 128 or \<^verbatim>\<open>char\<close> is
  unsigned, and the buffer holds at most 255 bytes or nothing but the frame.
\<close>

lemma structured_first_frame:
  assumes port: "m_serial x = Some s" and mode: "m_mode x \<noteq> TransparentMode"
    and buf: "buffer x @ fst (readAll s) = garbage @ frame @ rest"
    and g: "0x7E \<notin> set garbage"
    and f0: "frame ! 0 = 0x7E"
    and fl: "length frame = unat (frame ! 2) + 4"
    and plat: "\<not> char_signed out \<or> frame ! 2 < 128"
    and small: "length (frame @ rest) \<le> 255 \<or> rest = []"
  shows "\<exists>x' sigs. readData out x = Inr (x', [frame], sigs) \<and> buffer x' = rest"
proof -
  have fne: "frame \<noteq> []" using fl by auto
  have al: "dropToStartDelimiter (buffer x @ fst (readAll s)) = frame @ rest"
    using g f0 fne
    by (simp add: buf dropToStartDelimiter_garbage dropToStartDelimiter_aligned nth_append)
  have i2: "(frame @ rest) ! 2 = frame ! 2" using fl by (simp add: nth_append)
  have tp: "takePacket (char_signed out) (frame @ rest) = (Some frame, rest)"
    using takePacket_frame [of "frame @ rest" "length frame" "char_signed out"]
      fl plat small by (auto simp: i2)
  let ?x1 = "x\<lparr>m_serial := Some (snd (readAll s)), buffer := frame @ rest\<rparr>"
  obtain x2 sigs where pp: "processPacket out frame ?x1 = Inr (x2, sigs)"
    using processPacket_total [of frame out ?x1] fl by auto
  show ?thesis
    by (simp add: readData_structured [OF port mode] al tp pp Let_def)
qed

text \<open>
  Where \<^verbatim>\<open>char\<close> is signed, a length byte of 128 or more is read as a negative number: of a
  frame delivered whole, at most three bytes are handed to \<^verbatim>\<open>processPacket\<close>, which reads
  outside the packet.
\<close>

lemma takePacket_signed_long:
  assumes len: "length buf = unat (buf ! 2) + 4" and big: "128 \<le> buf ! 2"
  shows "\<exists>pkt rest. takePacket True buf = (Some pkt, rest) \<and> length pkt \<le> 3"
proof -
  have u: "128 \<le> uint (buf ! 2)" "uint (buf ! 2) < 256"
    using big uint_lt2p [of "buf ! 2"] by (simp_all add: word_le_def)
  have nb: "\<not> buf ! 2 < 128" using big by simp
  have k: "sint (buf ! 2) + 4 = uint (buf ! 2) - 252"
    by (simp add: sint8_cases nb)
  have l2: "2 < length buf" using len by simp
  have c: "(unat (buf ! 2) + 4) mod 256 \<le> length buf mod 256" by (simp add: len)
  have tp: "takePacket True buf
     = (Some (QByteArray_left buf (uint (buf ! 2) - 252)),
        QByteArray_remove buf 0 (uint (buf ! 2) - 252))"
    using l2 c by (simp add: takePacket_eq Let_def k)
  have "length (QByteArray_left buf (uint (buf ! 2) - 252)) \<le> 3"
    using u len by (auto simp: QByteArray_left_def)
  with tp show ?thesis by simp
qed

lemma readData_signed_long:
  assumes port: "m_serial x = Some s" and mode: "m_mode x \<noteq> TransparentMode"
    and sg: "char_signed out"
    and buf: "buffer x @ fst (readAll s) = garbage @ frame"
    and g: "0x7E \<notin> set garbage"
    and f0: "frame ! 0 = 0x7E"
    and fl: "length frame = unat (frame ! 2) + 4"
    and big: "128 \<le> frame ! 2"
  shows "readData out x = Inl IndexOutOfRange"
proof -
  have fne: "frame \<noteq> []" using fl by auto
  have al: "dropToStartDelimiter (buffer x @ fst (readAll s)) = frame"
    using g f0 fne
    by (simp add: buf dropToStartDelimiter_garbage dropToStartDelimiter_aligned)
  from takePacket_signed_long [OF fl big] obtain pkt rest where
    tp: "takePacket True frame = (Some pkt, rest)" "length pkt \<le> 3" by blast
  show ?thesis
    using sg tp by (simp add: readData_structured [OF port mode] al processPacket_def Let_def)
qed

text \<open>The delivery of two stray bytes followed by a frame of declared length 2.\<close>

lemma structured_example:
  "readData (wire sg) (XBee_on True True ApiMode [[0x01, 0x02, 0x7E, 0x00, 0x02, 0x90, 0xAB, 0x39]])
     = Inr (XBee_on True True ApiMode [], [[0x7E, 0x00, 0x02, 0x90, 0xAB, 0x39]],
            [receivedRXIndicator [0x7E, 0x00, 0x02, 0x90, 0xAB, 0x39]])"
proof -
  have tp: "takePacket sg [0x7E, 0x00, 0x02, 0x90, 0xAB, 0x39]
              = (Some [0x7E, 0x00, 0x02, 0x90, 0xAB, 0x39], [])"
    by (simp add: takePacket_eq Let_def QByteArray_left_def QByteArray_remove_def)
  show ?thesis
    by (simp add: readData_XBee_on_structured wire_fields tp processPacket_def
        wire_frameTypeOf_def)
       (simp add: XBee_on_def XBee_new_def)
qed

text \<open>\<^verbatim>\<open>readData\<close> hands at most one packet to \<^verbatim>\<open>processPacket\<close>.\<close>

lemma readData_at_most_one:
  "readData out x = Inr (x', pkts, sigs) \<Longrightarrow> length pkts \<le> 1"
  by (auto simp: readData_def Let_def split: option.splits prod.splits if_splits sum.splits)

subsection \<open>Command responses and the stored properties\<close>

text \<open>
  C1, as the code has it. \<^verbatim>\<open>processATCommandRespone\<close> never reads the status of the
  response: whatever the status, a failure included, the property that the command code
  of the response names is overwritten with the converted value and every other property
  keeps its value (all of them do when the code names none); the object after the call is
  the same for every status. The signal \<^verbatim>\<open>receivedATCommandResponse\<close> is emitted exactly
  once, and carries the response.
\<close>

theorem processATCommandRespone_ignores_status:
  "(let dataInt = (word_of_int (snd (toInt (toHex (data rep)) 16)) :: 32 word);
        x' = fst (processATCommandRespone rep x);
        sigs = snd (processATCommandRespone rep x)
    in filter (\<lambda>s. case s of receivedATCommandResponse _ \<Rightarrow> True | _ \<Rightarrow> False) sigs
         = [receivedATCommandResponse rep]
     \<and> fst (processATCommandRespone (rep\<lparr>commandStatus := st\<rparr>) x) = x'
     \<and> m_dh x' = (if atCommand rep = Command_DH then dataInt else m_dh x)
     \<and> m_dl x' = (if atCommand rep = Command_DL then dataInt else m_dl x)
     \<and> m_my x' = (if atCommand rep = Command_MY then ucast dataInt else m_my x)
     \<and> m_mp x' = (if atCommand rep = Command_MP then ucast dataInt else m_mp x)
     \<and> m_nc x' = (if atCommand rep = Command_NC then dataInt else m_nc x)
     \<and> m_sh x' = (if atCommand rep = Command_SH then dataInt else m_sh x)
     \<and> m_sl x' = (if atCommand rep = Command_SL then dataInt else m_sl x)
     \<and> m_ni x' = (if atCommand rep = Command_NI then toHex (data rep) else m_ni x)
     \<and> m_se x' = (if atCommand rep = Command_SE then ucast dataInt else m_se x)
     \<and> m_de x' = (if atCommand rep = Command_DE then ucast dataInt else m_de x)
     \<and> m_ci x' = (if atCommand rep = Command_CI then ucast dataInt else m_ci x)
     \<and> m_to x' = (if atCommand rep = Command_TO then ucast dataInt else m_to x)
     \<and> m_np x' = (if atCommand rep = Command_NP then ucast dataInt else m_np x)
     \<and> m_dd x' = (if atCommand rep = Command_DD then ucast dataInt else m_dd x)
     \<and> m_cr x' = (if atCommand rep = Command_CR then ucast dataInt else m_cr x))"
  by (cases "atCommand rep") (simp_all add: processATCommandRespone_def Let_def)

text \<open>
  C1, as the specification states it, fails: a response to \<^verbatim>\<open>DH\<close> whose status is not OK
  and whose value is the bytes AB CD changes the stored \<^verbatim>\<open>DH\<close> of a new object from 0 to
  0xABCD.
\<close>

theorem failing_status_overwrites_DH:
  "commandStatus \<lparr>rawPacket = [], atCommand = Command_DH, commandStatus = Failure 1,
                  data = [0xAB, 0xCD]\<rparr> \<noteq> Ok
   \<and> m_dh XBee_new = 0
   \<and> m_dh (fst (processATCommandRespone
        \<lparr>rawPacket = [], atCommand = Command_DH, commandStatus = Failure 1, data = [0xAB, 0xCD]\<rparr>
        XBee_new)) = 0xABCD
   \<and> m_dh (fst (processATCommandRespone
        \<lparr>rawPacket = [], atCommand = Command_DH, commandStatus = Failure 1, data = [0xAB, 0xCD]\<rparr>
        XBee_new)) \<noteq> m_dh XBee_new"
  by (simp add: processATCommandRespone_def XBee_new_def toInt_def hexDigit_def digitValue_def)

text \<open>
  C2, as the code has it. When the hexadecimal conversion of the value fails (no byte at
  all, or a value above the largest \<^verbatim>\<open>int\<close>), the numeric property that the command code
  names is set to 0, the result of the failed conversion. The function returns an object
  and its signals for every response: it has no error value.
\<close>

theorem failed_conversion_stores_zero:
  assumes "\<not> fst (toInt (toHex (data rep)) 16)"
  shows "(atCommand rep = Command_DH \<longrightarrow> m_dh (fst (processATCommandRespone rep x)) = 0)
       \<and> (atCommand rep = Command_DL \<longrightarrow> m_dl (fst (processATCommandRespone rep x)) = 0)
       \<and> (atCommand rep = Command_MY \<longrightarrow> m_my (fst (processATCommandRespone rep x)) = 0)
       \<and> (atCommand rep = Command_MP \<longrightarrow> m_mp (fst (processATCommandRespone rep x)) = 0)
       \<and> (atCommand rep = Command_NC \<longrightarrow> m_nc (fst (processATCommandRespone rep x)) = 0)
       \<and> (atCommand rep = Command_SH \<longrightarrow> m_sh (fst (processATCommandRespone rep x)) = 0)
       \<and> (atCommand rep = Command_SL \<longrightarrow> m_sl (fst (processATCommandRespone rep x)) = 0)
       \<and> (atCommand rep = Command_SE \<longrightarrow> m_se (fst (processATCommandRespone rep x)) = 0)
       \<and> (atCommand rep = Command_DE \<longrightarrow> m_de (fst (processATCommandRespone rep x)) = 0)
       \<and> (atCommand rep = Command_CI \<longrightarrow> m_ci (fst (processATCommandRespone rep x)) = 0)
       \<and> (atCommand rep = Command_TO \<longrightarrow> m_to (fst (processATCommandRespone rep x)) = 0)
       \<and> (atCommand rep = Command_NP \<longrightarrow> m_np (fst (processATCommandRespone rep x)) = 0)
       \<and> (atCommand rep = Command_DD \<longrightarrow> m_dd (fst (processATCommandRespone rep x)) = 0)
       \<and> (atCommand rep = Command_CR \<longrightarrow> m_cr (fst (processATCommandRespone rep x)) = 0)"
  using toInt_failed [OF assms]
  by (cases "atCommand rep") (simp_all add: processATCommandRespone_def Let_def)

text \<open>
  The theorem at a response to \<^verbatim>\<open>SL\<close> with status OK and the value FF FF FF FF, which is
  above the largest \<^verbatim>\<open>int\<close>: the stored 5 becomes 0.
\<close>

theorem failed_conversion_stores_zero_witness:
  "\<not> fst (toInt (toHex [0xFF, 0xFF, 0xFF, 0xFF]) 16)
   \<and> m_sl (XBee_new\<lparr>m_sl := 5\<rparr>) = 5
   \<and> m_sl (fst (processATCommandRespone
        \<lparr>rawPacket = [], atCommand = Command_SL, commandStatus = Ok,
         data = [0xFF, 0xFF, 0xFF, 0xFF]\<rparr>
        (XBee_new\<lparr>m_sl := 5\<rparr>))) = 0"
proof -
  have h: "\<not> fst (toInt (toHex (data \<lparr>rawPacket = [], atCommand = Command_SL,
              commandStatus = Ok, data = [0xFF, 0xFF, 0xFF, 0xFF]\<rparr>)) 16)"
    by (simp add: toInt_def hexDigit_def digitValue_def)
  show ?thesis
    using h failed_conversion_stores_zero [OF h, of "XBee_new\<lparr>m_sl := 5\<rparr>"]
    by (simp add: XBee_new_def)
qed

text \<open>
  C2, as the specification states it, fails: a response to \<^verbatim>\<open>DH\<close> with status OK and no
  value byte, whose conversion fails, does not leave the stored 5 in place.
\<close>

theorem failed_conversion_loses_previous_value:
  "\<not> fst (toInt (toHex []) 16)
   \<and> m_dh (fst (processATCommandRespone
        \<lparr>rawPacket = [], atCommand = Command_DH, commandStatus = Ok, data = []\<rparr>
        (XBee_new\<lparr>m_dh := 5\<rparr>))) \<noteq> m_dh (XBee_new\<lparr>m_dh := 5\<rparr>)"
  by (simp add: processATCommandRespone_def XBee_new_def toInt_def)

subsection \<open>Sending commands\<close>

text \<open>
  C6, as the code has it. On an object with a port, the asynchronous send returns; when
  the device was found and the port is open it gives the command the counter's value,
  advances the counter (255 goes back to 1) and writes the packet; otherwise the command
  keeps the id it had and the object, its counter included, is unchanged.
\<close>

theorem async_counter:
  assumes "m_serial x = Some s"
  shows "\<exists>c' x'. sendATCommandAsync out c x = Inr (c', x') \<and>
           (if xbeeFound x \<and> isOpen s
            then frameId c' = m_frameIdCounter x
               \<and> m_frameIdCounter x' =
                   (if 255 \<le> m_frameIdCounter x then 1 else m_frameIdCounter x + 1)
               \<and> m_serial x' = Some (s\<lparr>written := written s @ [encode out c]\<rparr>)
            else frameId c' = frameId c \<and> x' = x)"
proof (cases "xbeeFound x \<and> isOpen s")
  case True
  then show ?thesis using sendATCommandAsync_usable [OF assms, of out c] by simp
next
  case False
  then show ?thesis using sendATCommandAsync_unusable [OF assms False, of out c] by simp
qed

text \<open>The theorem on an open port (the id 1 is given, the counter becomes 2) and on a
  closed one (the object is unchanged).\<close>

theorem async_counter_witness:
  "(\<exists>c' x'. sendATCommandAsync (wire False) (ATCommandFrame_new\<lparr>command := ''DH''\<rparr>)
        (XBee_on True True ApiMode []) = Inr (c', x') \<and> frameId c' = 1 \<and> m_frameIdCounter x' = 2)
   \<and> (\<exists>c'. sendATCommandAsync (wire False) (ATCommandFrame_new\<lparr>command := ''DH''\<rparr>)
        (XBee_on False True ApiMode []) = Inr (c', XBee_on False True ApiMode []))"
proof -
  let ?p = "\<lambda>b. \<lparr>isOpen = b, signalsBlocked = False, written = [], incoming = []\<rparr>"
  have m: "\<And>b. m_serial (XBee_on b True ApiMode []) = Some (?p b)"
    by (simp add: XBee_on_def)
  have c: "\<And>b. m_frameIdCounter (XBee_on b True ApiMode []) = 1"
    and f: "\<And>b. xbeeFound (XBee_on b True ApiMode [])"
    by (simp_all add: XBee_on_def XBee_new_def)
  from async_counter [OF m, of "wire False" "ATCommandFrame_new\<lparr>command := ''DH''\<rparr>" True]
  have a: "\<exists>c' x'. sendATCommandAsync (wire False) (ATCommandFrame_new\<lparr>command := ''DH''\<rparr>)
        (XBee_on True True ApiMode []) = Inr (c', x') \<and> frameId c' = 1 \<and> m_frameIdCounter x' = 2"
    by (auto simp: c f)
  from async_counter [OF m, of "wire False" "ATCommandFrame_new\<lparr>command := ''DH''\<rparr>" False]
  have b: "\<exists>c'. sendATCommandAsync (wire False) (ATCommandFrame_new\<lparr>command := ''DH''\<rparr>)
        (XBee_on False True ApiMode []) = Inr (c', XBee_on False True ApiMode [])"
    by (auto simp: c f)
  from a b show ?thesis by (rule conjI)
qed

text \<open>
  C6, as the specification states it, fails: with the port closed, an asynchronous send
  returns with the counter still at 1.
\<close>

theorem dropped_command_keeps_counter:
  "m_frameIdCounter (XBee_on False True ApiMode []) = 1
   \<and> m_frameIdCounter (snd (projr (sendATCommandAsync (wire False)
        (ATCommandFrame_new\<lparr>command := ''DH''\<rparr>) (XBee_on False True ApiMode [])))) = 1
   \<and> \<not> isl (sendATCommandAsync (wire False)
        (ATCommandFrame_new\<lparr>command := ''DH''\<rparr>) (XBee_on False True ApiMode []))"
  by (simp add: sendATCommandAsync_def XBee_on_def XBee_new_def Let_def)

text \<open>
  C7. On an object with a port, the synchronous send returns; its result is absent when
  no byte is available at the read, and otherwise it is the response object built from
  exactly the bytes available then.
\<close>

theorem sync_reply:
  assumes "m_serial x = Some s"
  shows "\<exists>c' x'. sendATCommandSync out c x =
           Inr (if fst (readAll s) = [] then None
                else Some (decodeResponse out (fst (readAll s))), c', x')"
  using sendATCommandSync_port [OF assms] by blast

text \<open>The theorem on a silent line and on a line that delivers ten bytes.\<close>

theorem sync_reply_witness:
  "(\<exists>c' x'. sendATCommandSync (wire False) (ATCommandFrame_new\<lparr>command := ''AP''\<rparr>)
        (XBee_on True True ApiMode []) = Inr (None, c', x'))
   \<and> (\<exists>c' x'. sendATCommandSync (wire False) (ATCommandFrame_new\<lparr>command := ''AP''\<rparr>)
        (XBee_on True True ApiMode [[0x7E, 0x00, 0x06, 0x88, 0x01, 0x41, 0x50, 0x00, 0x01, 0xE4]])
        = Inr (Some (wire_decodeResponse [0x7E, 0x00, 0x06, 0x88, 0x01, 0x41, 0x50, 0x00, 0x01, 0xE4]),
               c', x'))"
proof -
  let ?p = "\<lambda>script. \<lparr>isOpen = True, signalsBlocked = False, written = [], incoming = script\<rparr>"
  have m: "\<And>script. m_serial (XBee_on True True ApiMode script) = Some (?p script)"
    by (simp add: XBee_on_def)
  show ?thesis
    using sync_reply [OF m, of "wire False" "ATCommandFrame_new\<lparr>command := ''AP''\<rparr>" "[]"]
          sync_reply [OF m, of "wire False" "ATCommandFrame_new\<lparr>command := ''AP''\<rparr>"
             "[[0x7E, 0x00, 0x06, 0x88, 0x01, 0x41, 0x50, 0x00, 0x01, 0xE4]]"]
    by (simp add: readAll_def wire_def)
qed

subsection \<open>Reading\<close>

text \<open>
  C9. In transparent mode, on an object with a port, \<^verbatim>\<open>readData\<close> appends what it reads
  to the buffer; when the buffer then ends with the byte 13 it emits the whole buffer, the
  13 included, in one \<^verbatim>\<open>rawDataReceived\<close> and empties the buffer; otherwise it emits
  nothing and keeps the buffer.
\<close>

theorem transparent_line:
  assumes "m_serial x = Some s" "m_mode x = TransparentMode"
  shows "readData out x =
           Inr (let b = buffer x @ fst (readAll s); s' = snd (readAll s) in
                if b \<noteq> [] \<and> last b = 13
                then (x\<lparr>m_serial := Some s', buffer := []\<rparr>, [], [rawDataReceived b])
                else (x\<lparr>m_serial := Some s', buffer := b\<rparr>, [], []))"
  using assms
  by (simp add: readData_def Let_def endsWith_last split: prod.splits)

text \<open>The theorem on the bytes of \<^verbatim>\<open>OK\<close> followed by 13, and on \<^verbatim>\<open>OK\<close> alone.\<close>

theorem transparent_line_witness:
  "readData (wire False) (XBee_on True True TransparentMode [[0x4F, 0x4B, 0x0D]])
     = Inr (XBee_on True True TransparentMode [], [], [rawDataReceived [0x4F, 0x4B, 0x0D]])
   \<and> readData (wire False) (XBee_on True True TransparentMode [[0x4F, 0x4B]])
     = Inr ((XBee_on True True TransparentMode [])\<lparr>buffer := [0x4F, 0x4B]\<rparr>, [], [])"
proof -
  let ?p = "\<lambda>script. \<lparr>isOpen = True, signalsBlocked = False, written = [], incoming = script\<rparr>"
  have m: "\<And>script. m_serial (XBee_on True True TransparentMode script) = Some (?p script)"
    and t: "\<And>script. m_mode (XBee_on True True TransparentMode script) = TransparentMode"
    by (simp_all add: XBee_on_def)
  show ?thesis
    using transparent_line [OF m t, of "wire False" "[[0x4F, 0x4B, 0x0D]]"]
          transparent_line [OF m t, of "wire False" "[[0x4F, 0x4B]]"]
    by (simp add: readAll_def XBee_on_def XBee_new_def)
qed

text \<open>
  C4 on a machine whose plain \<^verbatim>\<open>char\<close> is signed. The frame of declared length 128 has
  132 bytes. Fed alone into an empty buffer in structured mode, it is not handed to
  \<^verbatim>\<open>processPacket\<close>: the length byte 0x80 is read as -128, the length is -124, the test on
  the low bytes passes, \<^verbatim>\<open>left\<close> returns no byte and \<^verbatim>\<open>remove\<close> removes none; the packet
  is empty and the buffer still holds the frame, and \<^verbatim>\<open>processPacket\<close> reads the byte at
  index 3 of the empty packet. Where \<^verbatim>\<open>char\<close> is unsigned the same delivery hands the
  frame to \<^verbatim>\<open>processPacket\<close> and empties the buffer.
\<close>

theorem signed_char_long_frame_not_emitted:
  "length (zeroFrame 128) = 132 \<and> zeroFrame 128 ! 0 = 0x7E \<and> zeroFrame 128 ! 2 = 0x80
   \<and> takePacket True (dropToStartDelimiter (zeroFrame 128)) = (Some [], zeroFrame 128)
   \<and> readData (wire True) (XBee_on True True ApiMode [zeroFrame 128]) = Inl IndexOutOfRange
   \<and> readData (wire False) (XBee_on True True ApiMode [zeroFrame 128])
       = Inr (XBee_on True True ApiMode [], [zeroFrame 128], [receivedRXIndicator (zeroFrame 128)])"
proof -
  have a: "dropToStartDelimiter (zeroFrame 128) = zeroFrame 128"
    using zeroFrame_aligned [of 128 "[]"] by simp
  have u: "readData (wire False) (XBee_on True True ApiMode [zeroFrame 128])
       = Inr (XBee_on True True ApiMode [], [zeroFrame 128], [receivedRXIndicator (zeroFrame 128)])"
    by (simp add: readData_XBee_on_structured a wire_fields takePacket_unsigned_128
        processPacket_zeroFrame)
       (simp add: XBee_on_def XBee_new_def)
  show ?thesis
    by (simp add: u)
       (simp add: readData_XBee_on_structured a wire_fields takePacket_signed_128
          processPacket_def length_zeroFrame zeroFrame_nth)
qed

text \<open>
  C10 on a buffer of 256 bytes. Four frames of declared length 60, of 64 bytes each,
  arrive in one delivery. The size 256 cut to \<^verbatim>\<open>unsigned char\<close> is 0, below the length 64:
  no frame is handed to \<^verbatim>\<open>processPacket\<close>, the first one included, and all the bytes stay
  in the buffer. \<^verbatim>\<open>char\<close> signed or not makes no difference.
\<close>

theorem four_frames_none_emitted:
  "length (zeroFrame 60) = 64 \<and> zeroFrame 60 ! 0 = 0x7E \<and> zeroFrame 60 ! 2 = 60
   \<and> readData (wire False)
      (XBee_on True True ApiMode [zeroFrame 60 @ zeroFrame 60 @ zeroFrame 60 @ zeroFrame 60])
     = Inr ((XBee_on True True ApiMode [])
              \<lparr>buffer := zeroFrame 60 @ zeroFrame 60 @ zeroFrame 60 @ zeroFrame 60\<rparr>, [], [])
   \<and> readData (wire True)
      (XBee_on True True ApiMode [zeroFrame 60 @ zeroFrame 60 @ zeroFrame 60 @ zeroFrame 60])
     = Inr ((XBee_on True True ApiMode [])
              \<lparr>buffer := zeroFrame 60 @ zeroFrame 60 @ zeroFrame 60 @ zeroFrame 60\<rparr>, [], [])"
  by (simp add: readData_XBee_on_structured zeroFrame_aligned takePacket_four_frames
      length_zeroFrame zeroFrame_nth)

subsection \<open>The frame-id counter\<close>

text \<open>
  C3, as the code has it. With the counter between 1 and 255, a send gives the command
  the counter's value and moves the counter to its successor in the cycle 1, ..., 255:
  the asynchronous send when the device was found and the port is open, the synchronous
  send on any port. From the counter 1, a run of asynchronous sends gives the ids
  1, 2, ..., 255, 1, ... in turn, and the counter after \<open>n\<close> sends is \<open>n mod 255 + 1\<close>:
  it is 1 again after 255 sends. The id 0 is never given; 255 is.
\<close>

theorem frame_ids_run_1_to_255:
  assumes "m_serial x = Some s" "1 \<le> m_frameIdCounter x" "m_frameIdCounter x \<le> 255"
  shows "(xbeeFound x \<and> isOpen s \<longrightarrow>
            (\<exists>c' x'. sendATCommandAsync out c x = Inr (c', x')
               \<and> frameId c' = m_frameIdCounter x
               \<and> m_frameIdCounter x' = m_frameIdCounter x mod 255 + 1))
       \<and> (\<exists>rep c' x'. sendATCommandSync out c x = Inr (rep, c', x')
               \<and> frameId c' = m_frameIdCounter x
               \<and> m_frameIdCounter x' = m_frameIdCounter x mod 255 + 1)
       \<and> (xbeeFound x \<and> isOpen s \<and> m_frameIdCounter x = 1 \<longrightarrow>
            (\<exists>cs' x'. sendATCommandAsync_each out cs x = Inr (cs', x')
               \<and> map frameId cs' = map (\<lambda>i. i mod 255 + 1) [0..<length cs]
               \<and> m_frameIdCounter x' = length cs mod 255 + 1))"
proof (intro conjI impI)
  have n: "(if 255 \<le> m_frameIdCounter x then 1 else m_frameIdCounter x + 1)
             = m_frameIdCounter x mod 255 + 1"
    using assms(2,3) by auto
  show "\<exists>rep c' x'. sendATCommandSync out c x = Inr (rep, c', x')
               \<and> frameId c' = m_frameIdCounter x
               \<and> m_frameIdCounter x' = m_frameIdCounter x mod 255 + 1"
    by (simp add: sendATCommandSync_port [OF assms(1)] n)
  {
    assume u: "xbeeFound x \<and> isOpen s"
    then show "\<exists>c' x'. sendATCommandAsync out c x = Inr (c', x')
               \<and> frameId c' = m_frameIdCounter x
               \<and> m_frameIdCounter x' = m_frameIdCounter x mod 255 + 1"
      by (simp add: sendATCommandAsync_usable [OF assms(1)] n)
  }
  {
    assume u: "xbeeFound x \<and> isOpen s \<and> m_frameIdCounter x = 1"
    then have p: "portUsable x" using assms(1) by (simp add: portUsable_def)
    from sendATCommandAsync_each_ids [OF p assms(2,3), of out cs] u
    show "\<exists>cs' x'. sendATCommandAsync_each out cs x = Inr (cs', x')
               \<and> map frameId cs' = map (\<lambda>i. i mod 255 + 1) [0..<length cs]
               \<and> m_frameIdCounter x' = length cs mod 255 + 1"
      by auto
  }
qed

text \<open>The theorem on 255 asynchronous sends from the counter 1: the ids are 1 to 255 and
  the counter is 1 again.\<close>

theorem frame_ids_run_1_to_255_witness:
  "\<exists>cs' x'. sendATCommandAsync_each (wire False)
        (replicate 255 (ATCommandFrame_new\<lparr>command := ''DH''\<rparr>)) (XBee_on True True ApiMode [])
        = Inr (cs', x')
     \<and> map frameId cs' = [1..<256] \<and> m_frameIdCounter x' = 1"
proof -
  have c: "1 \<le> m_frameIdCounter (XBee_on True True ApiMode [])"
          "m_frameIdCounter (XBee_on True True ApiMode []) \<le> 255"
    by (simp_all add: XBee_on_fields)
  from frame_ids_run_1_to_255 [OF XBee_on_fields(1) c, of "wire False" _
      "replicate 255 (ATCommandFrame_new\<lparr>command := ''DH''\<rparr>)"]
  show ?thesis
    by (simp add: XBee_on_fields ids_255 del: upt_Suc)
qed

text \<open>
  C3, as the specification states it, fails: after 254 asynchronous sends from the
  counter 1 the counter is 255, not 1, and the 255th send gives the id 255.
\<close>

theorem frame_id_255_is_assigned:
  "m_frameIdCounter (snd (projr (sendATCommandAsync_each (wire False)
        (replicate 254 (ATCommandFrame_new\<lparr>command := ''DH''\<rparr>))
        (XBee_on True True ApiMode [])))) = 255
   \<and> frameId (last (fst (projr (sendATCommandAsync_each (wire False)
        (replicate 255 (ATCommandFrame_new\<lparr>command := ''DH''\<rparr>))
        (XBee_on True True ApiMode []))))) = 255"
proof -
  let ?x = "XBee_on True True ApiMode []"
  have p: "portUsable ?x" by (simp add: portUsable_def XBee_on_fields)
  have c: "1 \<le> m_frameIdCounter ?x" "m_frameIdCounter ?x \<le> 255"
    by (simp_all add: XBee_on_fields)
  from sendATCommandAsync_each_ids [OF p c, of "wire False"
      "replicate 254 (ATCommandFrame_new\<lparr>command := ''DH''\<rparr>)"]
  have a: "m_frameIdCounter (snd (projr (sendATCommandAsync_each (wire False)
        (replicate 254 (ATCommandFrame_new\<lparr>command := ''DH''\<rparr>)) ?x))) = 255"
    by (auto simp: XBee_on_fields)
  from sendATCommandAsync_each_ids [OF p c, of "wire False"
      "replicate 255 (ATCommandFrame_new\<lparr>command := ''DH''\<rparr>)"]
  obtain cs' x' where r: "sendATCommandAsync_each (wire False)
        (replicate 255 (ATCommandFrame_new\<lparr>command := ''DH''\<rparr>)) ?x = Inr (cs', x')"
      "map frameId cs' = [1..<256]"
    by (auto simp: XBee_on_fields ids_255 simp del: upt_Suc)
  have "length (map frameId cs') = length [1..<256::nat]" by (simp only: r(2))
  then have ne: "cs' \<noteq> []" by auto
  have "frameId (last cs') = last (map frameId cs')" using ne by (simp add: last_map)
  also have "\<dots> = last [1..<256]" by (simp only: r(2))
  also have "\<dots> = 255" by (simp add: last_upt)
  finally have b: "frameId (last cs') = 255" .
  show ?thesis using a b r(1) by simp
qed

subsection \<open>The startup check\<close>

text \<open>
  C8, as the code has it. The mode step, when the \<^verbatim>\<open>AP\<close> query is answered with status
  OK. If the value converts to 1 the step succeeds and the query is the only packet
  written. If it converts to another number a second packet is written, the \<^verbatim>\<open>AP\<close>
  command with the parameter \<^verbatim>\<open>1\<close> and the next frame id, and the step succeeds exactly
  when that second send returns a response whose status is OK. If it does not convert (no
  value byte, or a number above the largest \<^verbatim>\<open>int\<close>) the step fails, the query is the only
  packet written and nothing more is read from the line.
\<close>

theorem mode_step:
  assumes port: "m_serial x = Some s"
    and reply: "incoming s = r # rs" "r \<noteq> []"
    and ok: "commandStatus (decodeResponse out r) = Ok"
  shows "(let q1 = ATCommandFrame_new\<lparr>command := ''AP'', frameId := m_frameIdCounter x\<rparr>;
              q2 = q1\<lparr>packet := encode out q1, parameter := ''1'',
                      frameId := (if 255 \<le> m_frameIdCounter x then 1 else m_frameIdCounter x + 1)\<rparr>;
              r2 = (case rs of [] \<Rightarrow> [] | a # _ \<Rightarrow> a);
              conv = toInt (toHex (data (decodeResponse out r))) 16
          in \<exists>b x' s'. startupCheck_AP out x = Inr (b, x') \<and> m_serial x' = Some s' \<and>
               (if conv = (True, 1) then b \<and> written s' = written s @ [encode out q1]
                else if fst conv then
                  (b \<longleftrightarrow> r2 \<noteq> [] \<and> commandStatus (decodeResponse out r2) = Ok)
                  \<and> written s' = written s @ [encode out q1, encode out q2]
                else \<not> b \<and> written s' = written s @ [encode out q1] \<and> incoming s' = rs))"
proof -
  let ?s1 = "s\<lparr>signalsBlocked := False,
               written := written s @
                 [encode out (ATCommandFrame_new\<lparr>command := ''AP'',
                                frameId := m_frameIdCounter x\<rparr>)],
               incoming := rs\<rparr>"
  let ?x1 = "x\<lparr>m_frameIdCounter :=
                 (if 255 \<le> m_frameIdCounter x then 1 else m_frameIdCounter x + 1),
               m_serial := Some ?s1\<rparr>"
  obtain c v where conv: "toInt (toHex (data (decodeResponse out r))) 16 = (c, v)"
    by (cases "toInt (toHex (data (decodeResponse out r))) 16")
  show ?thesis
  proof (cases c)
    case False
    with conv have val: "\<not> fst (toInt (toHex (data (decodeResponse out r))) 16)" by simp
    show ?thesis
      unfolding Let_def
      by (rule exI [of _ False], rule exI [of _ ?x1], rule exI [of _ ?s1])
         (simp add: startupCheck_AP_no_value [OF port reply ok val] conv False)
  next
    case True
    note c = True
    show ?thesis
    proof (cases "v = 1")
      case True
      with conv c have val1: "toInt (toHex (data (decodeResponse out r))) 16 = (True, 1)"
        by simp
      show ?thesis
        unfolding Let_def
        by (rule exI [of _ True], rule exI [of _ ?x1], rule exI [of _ ?s1])
           (simp add: startupCheck_AP_is_1 [OF port reply ok val1] val1)
    next
      case False
      from conv c have val: "toInt (toHex (data (decodeResponse out r))) 16 = (True, v)"
        by simp
      from startupCheck_AP_not_1 [OF port reply ok val False]
      obtain x' s' where r: "startupCheck_AP out x =
               Inr ((case rs of [] \<Rightarrow> [] | a # _ \<Rightarrow> a) \<noteq> []
                    \<and> commandStatus (decodeResponse out (case rs of [] \<Rightarrow> [] | a # _ \<Rightarrow> a)) = Ok, x')"
          "m_serial x' = Some s'"
          "written s' = written s @
                  [encode out (ATCommandFrame_new\<lparr>command := ''AP'', frameId := m_frameIdCounter x\<rparr>),
                   encode out (ATCommandFrame_new\<lparr>command := ''AP'', frameId := m_frameIdCounter x,
                      packet := encode out (ATCommandFrame_new\<lparr>command := ''AP'',
                                              frameId := m_frameIdCounter x\<rparr>),
                      parameter := ''1'',
                      frameId := (if 255 \<le> m_frameIdCounter x then 1 else m_frameIdCounter x + 1)\<rparr>)]"
        by blast
      show ?thesis
        unfolding Let_def
        by (rule exI [of _ "(case rs of [] \<Rightarrow> [] | a # _ \<Rightarrow> a) \<noteq> []
                \<and> commandStatus (decodeResponse out (case rs of [] \<Rightarrow> [] | a # _ \<Rightarrow> a)) = Ok"],
            rule exI [of _ x'], rule exI [of _ s'])
           (simp add: r val False)
    qed
  qed
qed

text \<open>The theorem on a device that answers 1, on one that answers 2 and accepts the
  command, on one that answers 2 and rejects it, and on one that answers 80 00 00 00,
  which does not convert.\<close>

theorem mode_step_witness:
  "(\<exists>x' s'. startupCheck_AP (wire False)
        (XBee_on True True ApiMode [[0x7E, 0x00, 0x06, 0x88, 0x01, 0x41, 0x50, 0x00, 0x01, 0xE4]])
        = Inr (True, x') \<and> m_serial x' = Some s'
      \<and> written s' = [[0x7E, 0x00, 0x04, 0x08, 0x01, 0x41, 0x50, 0x65]])
   \<and> (\<exists>x' s'. startupCheck_AP (wire False)
        (XBee_on True True ApiMode [[0x7E, 0x00, 0x06, 0x88, 0x01, 0x41, 0x50, 0x00, 0x02, 0xE3],
                                    [0x7E, 0x00, 0x05, 0x88, 0x02, 0x41, 0x50, 0x00, 0xE4]])
        = Inr (True, x') \<and> m_serial x' = Some s'
      \<and> written s' = [[0x7E, 0x00, 0x04, 0x08, 0x01, 0x41, 0x50, 0x65],
                       [0x7E, 0x00, 0x05, 0x08, 0x02, 0x41, 0x50, 0x31, 0x33]])
   \<and> (\<exists>x' s'. startupCheck_AP (wire False)
        (XBee_on True True ApiMode [[0x7E, 0x00, 0x06, 0x88, 0x01, 0x41, 0x50, 0x00, 0x02, 0xE3],
                                    [0x7E, 0x00, 0x05, 0x88, 0x02, 0x41, 0x50, 0x01, 0xE3]])
        = Inr (False, x') \<and> m_serial x' = Some s'
      \<and> written s' = [[0x7E, 0x00, 0x04, 0x08, 0x01, 0x41, 0x50, 0x65],
                       [0x7E, 0x00, 0x05, 0x08, 0x02, 0x41, 0x50, 0x31, 0x33]])
   \<and> (\<exists>x' s'. startupCheck_AP (wire False)
        (XBee_on True True ApiMode
           [[0x7E, 0x00, 0x09, 0x88, 0x01, 0x41, 0x50, 0x00, 0x80, 0x00, 0x00, 0x00, 0x65],
            [0x7E, 0x00, 0x05, 0x88, 0x02, 0x41, 0x50, 0x00, 0xE4]])
        = Inr (False, x') \<and> m_serial x' = Some s'
      \<and> written s' = [[0x7E, 0x00, 0x04, 0x08, 0x01, 0x41, 0x50, 0x65]]
      \<and> incoming s' = [[0x7E, 0x00, 0x05, 0x88, 0x02, 0x41, 0x50, 0x00, 0xE4]])"
proof -
  let ?ap1 = "[0x7E, 0x00, 0x06, 0x88, 0x01, 0x41, 0x50, 0x00, 0x01, 0xE4] :: byte list"
  let ?ap2 = "[0x7E, 0x00, 0x06, 0x88, 0x01, 0x41, 0x50, 0x00, 0x02, 0xE3] :: byte list"
  let ?apx = "[0x7E, 0x00, 0x09, 0x88, 0x01, 0x41, 0x50, 0x00, 0x80, 0x00, 0x00, 0x00, 0x65] :: byte list"
  let ?ok = "[0x7E, 0x00, 0x05, 0x88, 0x02, 0x41, 0x50, 0x00, 0xE4] :: byte list"
  let ?ko = "[0x7E, 0x00, 0x05, 0x88, 0x02, 0x41, 0x50, 0x01, 0xE3] :: byte list"
  have a: "\<exists>x' s'. startupCheck_AP (wire False) (XBee_on True True ApiMode [?ap1])
        = Inr (True, x') \<and> m_serial x' = Some s'
      \<and> written s' = [[0x7E, 0x00, 0x04, 0x08, 0x01, 0x41, 0x50, 0x65]]"
    using mode_step [where x = "XBee_on True True ApiMode (?ap1 # [])" and out = "wire False"
        and r = "?ap1" and rs = "[]"
        and s = "\<lparr>isOpen = True, signalsBlocked = False, written = [], incoming = ?ap1 # []\<rparr>"]
    by (simp add: wire_fields reply_AP_1 XBee_on_fields wire_encode_def ATCommandFrame_new_def Let_def)
       (elim exE conjE, simp)
  have b: "\<exists>x' s'. startupCheck_AP (wire False) (XBee_on True True ApiMode [?ap2, ?ok])
        = Inr (True, x') \<and> m_serial x' = Some s'
      \<and> written s' = [[0x7E, 0x00, 0x04, 0x08, 0x01, 0x41, 0x50, 0x65],
                       [0x7E, 0x00, 0x05, 0x08, 0x02, 0x41, 0x50, 0x31, 0x33]]"
    using mode_step [where x = "XBee_on True True ApiMode (?ap2 # [?ok])" and out = "wire False"
        and r = "?ap2" and rs = "[?ok]"
        and s = "\<lparr>isOpen = True, signalsBlocked = False, written = [], incoming = ?ap2 # [?ok]\<rparr>"]
    by (simp add: wire_fields reply_AP_2 reply_set XBee_on_fields wire_encode_def ATCommandFrame_new_def Let_def)
       (elim exE conjE, simp)
  have c: "\<exists>x' s'. startupCheck_AP (wire False) (XBee_on True True ApiMode [?ap2, ?ko])
        = Inr (False, x') \<and> m_serial x' = Some s'
      \<and> written s' = [[0x7E, 0x00, 0x04, 0x08, 0x01, 0x41, 0x50, 0x65],
                       [0x7E, 0x00, 0x05, 0x08, 0x02, 0x41, 0x50, 0x31, 0x33]]"
    using mode_step [where x = "XBee_on True True ApiMode (?ap2 # [?ko])" and out = "wire False"
        and r = "?ap2" and rs = "[?ko]"
        and s = "\<lparr>isOpen = True, signalsBlocked = False, written = [], incoming = ?ap2 # [?ko]\<rparr>"]
    by (simp add: wire_fields reply_AP_2 reply_set XBee_on_fields wire_encode_def ATCommandFrame_new_def Let_def)
       (elim exE conjE, simp)
  have d: "\<exists>x' s'. startupCheck_AP (wire False) (XBee_on True True ApiMode [?apx, ?ok])
        = Inr (False, x') \<and> m_serial x' = Some s'
      \<and> written s' = [[0x7E, 0x00, 0x04, 0x08, 0x01, 0x41, 0x50, 0x65]]
      \<and> incoming s' = [?ok]"
    using mode_step [where x = "XBee_on True True ApiMode (?apx # [?ok])" and out = "wire False"
        and r = "?apx" and rs = "[?ok]"
        and s = "\<lparr>isOpen = True, signalsBlocked = False, written = [], incoming = ?apx # [?ok]\<rparr>"]
    by (simp add: wire_fields reply_AP_unconverted(1,3) XBee_on_fields wire_encode_def
          ATCommandFrame_new_def Let_def)
       (elim exE conjE, simp)
  from a b c d show ?thesis by blast
qed

text \<open>
  C8, as the specification states it, fails: the \<^verbatim>\<open>AP\<close> query is answered with status OK
  and the value 80 00 00 00, which is not 1 and does not convert, and an OK response to a
  set command waits on the line. No set command is sent: the query is the only packet
  written, the waiting response is not read, and the step fails.
\<close>

theorem unconverted_mode_sends_no_command:
  "commandStatus (wire_decodeResponse
      [0x7E, 0x00, 0x09, 0x88, 0x01, 0x41, 0x50, 0x00, 0x80, 0x00, 0x00, 0x00, 0x65]) = Ok
   \<and> data (wire_decodeResponse
      [0x7E, 0x00, 0x09, 0x88, 0x01, 0x41, 0x50, 0x00, 0x80, 0x00, 0x00, 0x00, 0x65])
      = [0x80, 0x00, 0x00, 0x00]
   \<and> \<not> isl (startupCheck_AP (wire False) (XBee_on True True ApiMode
          [[0x7E, 0x00, 0x09, 0x88, 0x01, 0x41, 0x50, 0x00, 0x80, 0x00, 0x00, 0x00, 0x65],
           [0x7E, 0x00, 0x05, 0x88, 0x02, 0x41, 0x50, 0x00, 0xE4]]))
   \<and> \<not> fst (projr (startupCheck_AP (wire False) (XBee_on True True ApiMode
          [[0x7E, 0x00, 0x09, 0x88, 0x01, 0x41, 0x50, 0x00, 0x80, 0x00, 0x00, 0x00, 0x65],
           [0x7E, 0x00, 0x05, 0x88, 0x02, 0x41, 0x50, 0x00, 0xE4]])))
   \<and> map_option written (m_serial (snd (projr (startupCheck_AP (wire False)
          (XBee_on True True ApiMode
          [[0x7E, 0x00, 0x09, 0x88, 0x01, 0x41, 0x50, 0x00, 0x80, 0x00, 0x00, 0x00, 0x65],
           [0x7E, 0x00, 0x05, 0x88, 0x02, 0x41, 0x50, 0x00, 0xE4]])))))
      = Some [[0x7E, 0x00, 0x04, 0x08, 0x01, 0x41, 0x50, 0x65]]
   \<and> map_option incoming (m_serial (snd (projr (startupCheck_AP (wire False)
          (XBee_on True True ApiMode
          [[0x7E, 0x00, 0x09, 0x88, 0x01, 0x41, 0x50, 0x00, 0x80, 0x00, 0x00, 0x00, 0x65],
           [0x7E, 0x00, 0x05, 0x88, 0x02, 0x41, 0x50, 0x00, 0xE4]])))))
      = Some [[0x7E, 0x00, 0x05, 0x88, 0x02, 0x41, 0x50, 0x00, 0xE4]]"
proof -
  let ?apx = "[0x7E, 0x00, 0x09, 0x88, 0x01, 0x41, 0x50, 0x00, 0x80, 0x00, 0x00, 0x00, 0x65] :: byte list"
  let ?ok = "[0x7E, 0x00, 0x05, 0x88, 0x02, 0x41, 0x50, 0x00, 0xE4] :: byte list"
  let ?s = "\<lparr>isOpen = True, signalsBlocked = False, written = [], incoming = [?apx, ?ok]\<rparr>"
  have i: "incoming ?s = ?apx # [?ok]" by simp
  have ne: "?apx \<noteq> []" by simp
  have st: "commandStatus (decodeResponse (wire False) ?apx) = Ok"
    by (simp add: wire_fields reply_AP_unconverted)
  have nv: "\<not> fst (toInt (toHex (data (decodeResponse (wire False) ?apx))) 16)"
    by (simp add: wire_fields reply_AP_unconverted(3))
  note r = startupCheck_AP_no_value [OF XBee_on_fields(1) i ne st nv]
  show ?thesis
    by (simp add: r reply_AP_unconverted(1,2) XBee_on_fields wire_fields wire_encode_def
        ATCommandFrame_new_def)
qed

text \<open>
  C5 on a device that answers the \<^verbatim>\<open>AP\<close> query with 1 and the \<^verbatim>\<open>HV\<close> query with status OK
  and the value 0x99, which is neither \<open>XBeeSerie1\<close> nor \<open>XBeeSerie1Pro\<close>: the startup check
  returns true.
\<close>

theorem startupCheck_accepts_unlisted_hardware:
  "commandStatus (wire_decodeResponse [0x7E, 0x00, 0x06, 0x88, 0x02, 0x48, 0x56, 0x00, 0x99, 0x3E]) = Ok
   \<and> toInt (toHex (data (wire_decodeResponse
         [0x7E, 0x00, 0x06, 0x88, 0x02, 0x48, 0x56, 0x00, 0x99, 0x3E]))) 16 = (True, 0x99)
   \<and> XBeeSerie1 (wire False) \<noteq> 0x99 \<and> XBeeSerie1Pro (wire False) \<noteq> 0x99
   \<and> \<not> isl (startupCheck (wire False) (XBee_on True True ApiMode
          [[0x7E, 0x00, 0x06, 0x88, 0x01, 0x41, 0x50, 0x00, 0x01, 0xE4],
           [0x7E, 0x00, 0x06, 0x88, 0x02, 0x48, 0x56, 0x00, 0x99, 0x3E]]))
   \<and> fst (projr (startupCheck (wire False) (XBee_on True True ApiMode
          [[0x7E, 0x00, 0x06, 0x88, 0x01, 0x41, 0x50, 0x00, 0x01, 0xE4],
           [0x7E, 0x00, 0x06, 0x88, 0x02, 0x48, 0x56, 0x00, 0x99, 0x3E]])))"
proof -
  let ?ap1 = "[0x7E, 0x00, 0x06, 0x88, 0x01, 0x41, 0x50, 0x00, 0x01, 0xE4] :: byte list"
  let ?hv = "[0x7E, 0x00, 0x06, 0x88, 0x02, 0x48, 0x56, 0x00, 0x99, 0x3E] :: byte list"
  let ?x = "XBee_on True True ApiMode [?ap1, ?hv]"
  let ?s = "\<lparr>isOpen = True, signalsBlocked = False, written = [], incoming = [?ap1, ?hv]\<rparr>"
  have ne: "?ap1 \<noteq> []" "?hv \<noteq> []" by simp_all
  have i: "incoming ?s = ?ap1 # [?hv]" by simp
  note ap = startupCheck_AP_is_1 [where out = "wire False", OF XBee_on_fields(1) i ne(1),
      unfolded wire_fields, OF reply_AP_1]
  let ?x1 = "?x\<lparr>m_frameIdCounter := (if 255 \<le> m_frameIdCounter ?x then 1 else m_frameIdCounter ?x + 1),
              m_serial := Some (?s\<lparr>signalsBlocked := False,
                written := written ?s @ [wire_encode (ATCommandFrame_new\<lparr>command := ''AP'',
                                      frameId := m_frameIdCounter ?x\<rparr>)],
                incoming := [?hv]\<rparr>)\<rparr>"
  let ?s1 = "?s\<lparr>signalsBlocked := False,
                written := written ?s @ [wire_encode (ATCommandFrame_new\<lparr>command := ''AP'',
                                      frameId := m_frameIdCounter ?x\<rparr>)],
                incoming := [?hv]\<rparr>"
  have m1: "m_serial ?x1 = Some ?s1" by simp
  have i1: "incoming ?s1 = ?hv # []" by simp
  from startupCheck_HV_value [where out = "wire False" and bRet = True, OF m1 i1 ne(2),
      unfolded wire_fields, OF reply_HV_99]
  obtain x' where hv: "startupCheck_HV (wire False) True ?x1 = Inr (True, x')"
    by auto
  have "startupCheck (wire False) ?x = Inr (True, x')"
    using ap hv by (simp add: startupCheck_def XBee_on_fields)
  then show ?thesis
    by (simp add: reply_HV_99 wire_fields)
qed

end
